theory Spec2Isabelle
  imports Complex_Main "HOL-Library.Sublist"
begin

section \<open>JavaScript strings\<close>

text \<open>
  Strings are \<^typ>\<open>string\<close>; a character outside ASCII is carried as the bytes of its
  UTF-8 encoding.  The operations below are the ones the source calls on strings:
  \<^verbatim>\<open>trim\<close>, \<^verbatim>\<open>startsWith\<close>, \<^verbatim>\<open>includes\<close>, \<^verbatim>\<open>split\<close> on a one-character separator
  and the truthiness test of \<^verbatim>\<open>||\<close> and \<^verbatim>\<open>!\<close>.
\<close>

text \<open>
  The code points ECMAScript's \<^verbatim>\<open>trim\<close> removes (WhiteSpace and LineTerminator), each as
  its UTF-8 encoding: U+0009..U+000D, U+0020, U+00A0, U+1680, U+2000..U+200A, U+2028,
  U+2029, U+202F, U+205F, U+3000, U+FEFF.
\<close>

definition white_space :: "string list" where
  "white_space =
     [[CHR 0x09], [CHR 0x0A], [CHR 0x0B], [CHR 0x0C], [CHR 0x0D], [CHR 0x20],
      [CHR 0xC2, CHR 0xA0],
      [CHR 0xE1, CHR 0x9A, CHR 0x80],
      [CHR 0xE2, CHR 0x80, CHR 0x80], [CHR 0xE2, CHR 0x80, CHR 0x81],
      [CHR 0xE2, CHR 0x80, CHR 0x82], [CHR 0xE2, CHR 0x80, CHR 0x83],
      [CHR 0xE2, CHR 0x80, CHR 0x84], [CHR 0xE2, CHR 0x80, CHR 0x85],
      [CHR 0xE2, CHR 0x80, CHR 0x86], [CHR 0xE2, CHR 0x80, CHR 0x87],
      [CHR 0xE2, CHR 0x80, CHR 0x88], [CHR 0xE2, CHR 0x80, CHR 0x89],
      [CHR 0xE2, CHR 0x80, CHR 0x8A],
      [CHR 0xE2, CHR 0x80, CHR 0xA8], [CHR 0xE2, CHR 0x80, CHR 0xA9],
      [CHR 0xE2, CHR 0x80, CHR 0xAF],
      [CHR 0xE2, CHR 0x81, CHR 0x9F],
      [CHR 0xE3, CHR 0x80, CHR 0x80],
      [CHR 0xEF, CHR 0xBB, CHR 0xBF]]"

text \<open>Remove, from the front of \<open>s\<close>, every leading occurrence of one of the patterns.\<close>

function strip_all :: "string list \<Rightarrow> string \<Rightarrow> string" where
  "strip_all ps s =
     (case find (\<lambda>p. p \<noteq> [] \<and> prefix p s) ps of
        None \<Rightarrow> s
      | Some p \<Rightarrow> strip_all ps (drop (length p) s))"
  by pat_completeness auto
termination
proof (relation "measure (\<lambda>(ps, s). length s)")
  show "wf (measure (\<lambda>(ps, s). length s))" by simp
next
  fix ps :: "string list" and s p :: string
  assume "find (\<lambda>p. p \<noteq> [] \<and> prefix p s) ps = Some p"
  then have "p \<noteq> [] \<and> prefix p s"
    by (auto simp: find_Some_iff)
  then obtain c r where "p = c # r" and "length p \<le> length s"
    by (cases p) (auto simp: prefix_def)
  then have "length s - length p < length s"
    by simp
  then show "((ps, drop (length p) s), (ps, s)) \<in> measure (\<lambda>(ps, s). length s)"
    by simp
qed

definition trimStart :: "string \<Rightarrow> string" where
  "trimStart s = strip_all white_space s"

definition trimEnd :: "string \<Rightarrow> string" where
  "trimEnd s = rev (strip_all (map rev white_space) (rev s))"

definition trim :: "string \<Rightarrow> string" where
  "trim s = trimEnd (trimStart s)"

definition startsWith :: "string \<Rightarrow> string \<Rightarrow> bool" where
  "startsWith s p = prefix p s"

fun includes_str :: "string \<Rightarrow> string \<Rightarrow> bool" where
  "includes_str [] p = (p = [])"
| "includes_str (c # s) p = (prefix p (c # s) \<or> includes_str s p)"

text \<open>\<^verbatim>\<open>s.split(c)\<close> for a separator of one character: never the empty list.\<close>

fun split :: "char \<Rightarrow> string \<Rightarrow> string list" where
  "split c [] = [[]]"
| "split c (x # s) =
     (if x = c then [] # split c s
      else (case split c s of w # ws \<Rightarrow> (x # w) # ws | [] \<Rightarrow> [[x]]))"

text \<open>\<^verbatim>\<open>arr[i]\<close>: \<^verbatim>\<open>undefined\<close> (here \<open>None\<close>) beyond the end.\<close>

definition at_index :: "'a list \<Rightarrow> nat \<Rightarrow> 'a option" where
  "at_index xs i = (if i < length xs then Some (xs ! i) else None)"

text \<open>\<^verbatim>\<open>a || b\<close> where \<open>a\<close> is a string or \<^verbatim>\<open>undefined\<close>: the empty string is falsy.\<close>

definition or_else :: "string option \<Rightarrow> string option \<Rightarrow> string option" where
  "or_else a b = (case a of Some s \<Rightarrow> (if s \<noteq> [] then Some s else b) | None \<Rightarrow> b)"

definition or_default :: "string option \<Rightarrow> string \<Rightarrow> string" where
  "or_default a d = (case a of Some s \<Rightarrow> (if s \<noteq> [] then s else d) | None \<Rightarrow> d)"

section \<open>types.ts\<close>

text \<open>
  \<^verbatim>\<open>timestamp\<close> is a number of seconds (a double in the source, carried unchanged);
  \<^verbatim>\<open>createdAt\<close> is \<^verbatim>\<open>Date.now()\<close>, an integer of milliseconds.  The optional fields
  are options.
\<close>

record CapturedFrame =
  frame_id :: string
  dataUrl :: string
  timestamp :: real
  createdAt :: int
  isGenerated :: "bool option"
  width :: "nat option"
  height :: "nat option"

text \<open>
  A value produced by \<^verbatim>\<open>JSON.parse\<close>.  An object is the list of its own properties.
  TypeScript declares both fields of \<^verbatim>\<open>AnalysisResult\<close> as strings, but they are filled
  from a parsed value without any check, so at run time they hold whatever was parsed.
\<close>

datatype json =
    JNull
  | JBool bool
  | JNum real
  | JStr string
  | JArr "json list"
  | JObj "(string \<times> json) list"

record AnalysisResult =
  chineseDescription :: json
  englishPrompt :: json

record GeneratedImage =
  img_id :: string
  img_dataUrl :: string
  promptUsed :: string
  img_createdAt :: int

datatype AppState = IDLE | ANALYZING | GENERATING | ERROR

datatype WorkflowStep = CAPTURE | CREATIVE | VEO

section \<open>App.tsx: the gallery and the credential\<close>

text \<open>
  The state of the \<^verbatim>\<open>App\<close> component (its \<^verbatim>\<open>useState\<close> cells) together with the
  browser's \<^verbatim>\<open>localStorage\<close>, which \<^verbatim>\<open>handleSaveApiKey\<close> writes.
\<close>

record App =
  frames :: "CapturedFrame list"
  selectedFrame :: "CapturedFrame option"
  currentStep :: WorkflowStep
  seekTimestamp :: "real option"
  apiKey :: string
  showKeyInput :: bool
  keyError :: "string option"
  localStorage :: "string \<rightharpoonup> string"

definition storage_key :: string where
  "storage_key = ''user_gemini_api_key''"

definition key_empty_message :: string where
  "key_empty_message = ''API Key '' @
     [CHR 0xE4, CHR 0xB8, CHR 0x8D, CHR 0xE8, CHR 0x83, CHR 0xBD,
      CHR 0xE4, CHR 0xB8, CHR 0xBA, CHR 0xE7, CHR 0xA9, CHR 0xBA]"

definition key_format_message :: string where
  "key_format_message =
     [CHR 0xE6, CHR 0x97, CHR 0xA0, CHR 0xE6, CHR 0x95, CHR 0x88, CHR 0xE7, CHR 0x9A, CHR 0x84]
     @ '' Key '' @ [CHR 0xE6, CHR 0xA0, CHR 0xBC, CHR 0xE5, CHR 0xBC, CHR 0x8F]
     @ '' ('' @ [CHR 0xE5, CHR 0xBA, CHR 0x94, CHR 0xE4, CHR 0xBB, CHR 0xA5]
     @ '' AIza '' @ [CHR 0xE5, CHR 0xBC, CHR 0x80, CHR 0xE5, CHR 0xA4, CHR 0xB4] @ '')''"

text \<open>The component after mounting: the stored key, if any and not empty, is loaded.\<close>

definition initial_app :: "(string \<rightharpoonup> string) \<Rightarrow> App" where
  "initial_app ls =
     \<lparr> frames = [], selectedFrame = None, currentStep = CAPTURE, seekTimestamp = None,
       apiKey = or_default (ls storage_key) [], showKeyInput = False, keyError = None,
       localStorage = ls \<rparr>"

definition handleSaveApiKey :: "App \<Rightarrow> App" where
  "handleSaveApiKey a =
     (let trimmedKey = trim (apiKey a) in
      if trimmedKey = [] then a\<lparr>keyError := Some key_empty_message\<rparr>
      else if \<not> startsWith trimmedKey ''AIza'' then a\<lparr>keyError := Some key_format_message\<rparr>
      else a\<lparr> localStorage := (localStorage a)(storage_key \<mapsto> trimmedKey),
               apiKey := trimmedKey, showKeyInput := False, keyError := None \<rparr>)"

definition handleCancelKeyInput :: "App \<Rightarrow> App" where
  "handleCancelKeyInput a =
     a\<lparr> showKeyInput := False, keyError := None,
        apiKey := or_default (localStorage a storage_key) [] \<rparr>"

definition handleCapture :: "App \<Rightarrow> CapturedFrame \<Rightarrow> App" where
  "handleCapture a frame =
     a\<lparr> frames := frames a @ [frame],
        selectedFrame := (if selectedFrame a = None then Some frame else selectedFrame a) \<rparr>"

definition handleSelectFrame :: "App \<Rightarrow> CapturedFrame \<Rightarrow> App" where
  "handleSelectFrame a frame =
     a\<lparr> selectedFrame := Some frame,
        seekTimestamp := (if currentStep a = CAPTURE then Some (timestamp frame)
                          else seekTimestamp a) \<rparr>"

definition handleDeleteFrame :: "App \<Rightarrow> string \<Rightarrow> App" where
  "handleDeleteFrame a i =
     a\<lparr> frames := filter (\<lambda>f. frame_id f \<noteq> i) (frames a),
        selectedFrame := (if map_option frame_id (selectedFrame a) = Some i then None
                          else selectedFrame a) \<rparr>"

definition handleImageSaved :: "App \<Rightarrow> GeneratedImage \<Rightarrow> App" where
  "handleImageSaved a img =
     (let newFrame = \<lparr> frame_id = img_id img, dataUrl = img_dataUrl img, timestamp = 0,
                       createdAt = img_createdAt img, isGenerated = Some True,
                       width = None, height = None \<rparr>
      in a\<lparr> frames := newFrame # frames a \<rparr>)"

text \<open>
  What the user can do to the gallery.  \<^verbatim>\<open>handleSelectFrame\<close> is only ever installed as the
  click handler of a thumbnail rendered by \<^verbatim>\<open>frames.map\<close>, so a selection event names the
  position of a rendered thumbnail; where no thumbnail is rendered there is nothing to
  click and the state stays as it is.  \<^verbatim>\<open>handleDeleteFrame\<close>, \<^verbatim>\<open>handleCapture\<close> and
  \<^verbatim>\<open>handleImageSaved\<close> are taken with any argument.
\<close>

datatype event =
    Capture CapturedFrame
  | ClickThumbnail nat
  | Delete string
  | ImageSaved GeneratedImage
  | SetStep WorkflowStep

fun step :: "App \<Rightarrow> event \<Rightarrow> App" where
  "step a (Capture f) = handleCapture a f"
| "step a (ClickThumbnail n) =
     (case at_index (frames a) n of Some f \<Rightarrow> handleSelectFrame a f | None \<Rightarrow> a)"
| "step a (Delete i) = handleDeleteFrame a i"
| "step a (ImageSaved img) = handleImageSaved a img"
| "step a (SetStep s) = a\<lparr>currentStep := s\<rparr>"

definition run_events :: "App \<Rightarrow> event list \<Rightarrow> App" where
  "run_events a evs = foldl step a evs"

text \<open>The selection resolves: it is null, or a frame of the gallery carries its id.\<close>

definition selection_resolves :: "App \<Rightarrow> bool" where
  "selection_resolves a =
     (case selectedFrame a of None \<Rightarrow> True
      | Some f \<Rightarrow> frame_id f \<in> set (map frame_id (frames a)))"


section \<open>geminiService.ts\<close>

subsection \<open>Errors, requests, responses and the environment\<close>

text \<open>
  A thrown value: the three properties the \<^verbatim>\<open>catch\<close> clauses read.  \<^verbatim>\<open>new Error(m)\<close> has
  a message and neither \<^verbatim>\<open>status\<close> nor \<^verbatim>\<open>code\<close>.
\<close>

record js_error =
  err_status :: "int option"
  err_code :: "int option"
  err_message :: "string option"

definition new_Error :: "string \<Rightarrow> js_error" where
  "new_Error m = \<lparr> err_status = None, err_code = None, err_message = Some m \<rparr>"

datatype part = InlineData string string | Text string

record content_request =
  cr_model :: string
  cr_parts :: "part list"
  cr_responseMimeType :: "string option"
  cr_aspectRatio :: "string option"

record inline_data =
  inline_bytes :: "string option"
  inline_mimeType :: "string option"

record response_part =
  inlineData :: "inline_data option"

record response_content =
  content_parts :: "response_part list option"

record candidate =
  content :: "response_content option"

record content_response =
  response_text :: "string option"
  candidates :: "candidate list option"

record video_request =
  vr_model :: string
  vr_prompt :: string
  vr_imageBytes :: string
  vr_mimeType :: string
  vr_numberOfVideos :: nat
  vr_resolution :: string
  vr_aspectRatio :: string
  vr_lastFrame :: "(string \<times> string) option"

record Video =
  uri :: "string option"

record video_entry =
  video :: "Video option"

record videos_response =
  generatedVideos :: "video_entry list option"

record operation =
  op_done :: "bool option"
  op_response :: "videos_response option"

type_synonym blob = string

record http_response =
  resp_status :: nat
  resp_statusText :: string
  resp_blob :: "js_error + blob"

text \<open>
  Everything outside the repository that the service calls: the environment variable, the
  vendor's client (created with a key; the number is the position of the call within the
  job, so that repeated calls may answer differently), the instant at which the promise of
  a call settles, \<^verbatim>\<open>fetch\<close>, \<^verbatim>\<open>URL.createObjectURL\<close> and \<^verbatim>\<open>JSON.parse\<close> (\<open>None\<close> when
  it throws).
\<close>

record env =
  API_KEY :: "string option"
  generateContent :: "string \<Rightarrow> nat \<Rightarrow> content_request \<Rightarrow> js_error + content_response"
  settled_at :: "nat \<Rightarrow> nat"
  generateVideos :: "string \<Rightarrow> video_request \<Rightarrow> js_error + operation"
  getVideosOperation :: "string \<Rightarrow> nat \<Rightarrow> operation \<Rightarrow> js_error + operation"
  fetch :: "string \<Rightarrow> js_error + http_response"
  createObjectURL :: "blob \<Rightarrow> string"
  JSON_parse :: "string \<Rightarrow> json option"

text \<open>What a job does to the outside, in order.\<close>

datatype call =
    GenerateContent content_request
  | GenerateVideos video_request
  | Sleep nat
  | GetVideosOperation operation
  | Fetch string
  | OnImageSaved GeneratedImage

subsection \<open>Helpers\<close>

definition resolve_key :: "env \<Rightarrow> string option \<Rightarrow> string option" where
  "resolve_key e customKey = or_else (map_option trim customKey) (API_KEY e)"

definition getClient :: "env \<Rightarrow> string option \<Rightarrow> js_error + string" where
  "getClient e customKey =
     (case resolve_key e customKey of
        Some k \<Rightarrow>
          (if k \<noteq> [] then Inr k
           else Inl (new_Error ''API Key is missing. Please enter your Google Gemini API Key.''))
      | None \<Rightarrow> Inl (new_Error ''API Key is missing. Please enter your Google Gemini API Key.''))"

definition stripBase64Prefix :: "string \<Rightarrow> string" where
  "stripBase64Prefix d = or_default (at_index (split (CHR '','') d) 1) d"

definition getMimeType :: "string \<Rightarrow> string" where
  "getMimeType d =
     or_default
       (case at_index (split (CHR '';'') d) 0 of
          Some w \<Rightarrow> at_index (split (CHR '':'') w) 1
        | None \<Rightarrow> None)
       ''image/png''"

subsection \<open>analyzeFrame\<close>

definition analyze_instruction :: string where
  "analyze_instruction =
     ''Analyze this video frame. Return a JSON object with two keys: '' @ [CHR 0x27] @
     ''chineseDescription'' @ [CHR 0x27] @
     '' (a detailed description of the scene in Chinese) and '' @ [CHR 0x27] @
     ''englishPrompt'' @ [CHR 0x27] @
     '' (a high-quality, detailed English text-to-image prompt suitable for Generative AI).''"

definition analyze_request :: "string \<Rightarrow> content_request" where
  "analyze_request base64Image =
     \<lparr> cr_model = ''gemini-3-flash-preview'',
       cr_parts = [InlineData (stripBase64Prefix base64Image) (getMimeType base64Image),
                   Text analyze_instruction],
       cr_responseMimeType = Some ''application/json'',
       cr_aspectRatio = None \<rparr>"

definition no_chinese_description :: string where
  "no_chinese_description =
     [CHR 0xE6, CHR 0x97, CHR 0xA0, CHR 0xE6, CHR 0xB3, CHR 0x95, CHR 0xE7, CHR 0x94, CHR 0x9F,
      CHR 0xE6, CHR 0x88, CHR 0x90, CHR 0xE4, CHR 0xB8, CHR 0xAD, CHR 0xE6, CHR 0x96, CHR 0x87,
      CHR 0xE6, CHR 0x8F, CHR 0x8F, CHR 0xE8, CHR 0xBF, CHR 0xB0]"

definition parse_failed_placeholder :: string where
  "parse_failed_placeholder =
     [CHR 0xE8, CHR 0xA7, CHR 0xA3, CHR 0xE6, CHR 0x9E, CHR 0x90, CHR 0xE5, CHR 0x93, CHR 0x8D,
      CHR 0xE5, CHR 0xBA, CHR 0x94, CHR 0xE5, CHR 0xA4, CHR 0xB1, CHR 0xE8, CHR 0xB4, CHR 0xA5]"

text \<open>
  \<^verbatim>\<open>json.name\<close>: a \<^verbatim>\<open>TypeError\<close> on \<^verbatim>\<open>null\<close> (here \<open>None\<close>), the property of an object,
  and \<^verbatim>\<open>undefined\<close> (here \<open>Some None\<close>) where there is none; booleans, numbers, strings and
  arrays have no property of the two names read here.
\<close>

fun get_property :: "json \<Rightarrow> string \<Rightarrow> json option option" where
  "get_property JNull name = None"
| "get_property (JObj kvs) name = Some (map_of kvs name)"
| "get_property j name = Some None"

fun truthy :: "json \<Rightarrow> bool" where
  "truthy JNull = False"
| "truthy (JBool b) = b"
| "truthy (JNum x) = (x \<noteq> 0)"
| "truthy (JStr s) = (s \<noteq> [])"
| "truthy (JArr xs) = True"
| "truthy (JObj kvs) = True"

definition or_json :: "json option \<Rightarrow> string \<Rightarrow> json" where
  "or_json v d = (case v of Some j \<Rightarrow> (if truthy j then j else JStr d) | None \<Rightarrow> JStr d)"

text \<open>The inner \<^verbatim>\<open>try\<close> of lines 58 to 70: every exception in it gives the fallback.\<close>

definition parse_analysis :: "env \<Rightarrow> string \<Rightarrow> AnalysisResult" where
  "parse_analysis e t =
     (let fallback = \<lparr> chineseDescription = JStr parse_failed_placeholder,
                        englishPrompt = JStr t \<rparr>
      in case JSON_parse e t of
           None \<Rightarrow> fallback
         | Some j \<Rightarrow>
             (case get_property j ''chineseDescription'' of
                None \<Rightarrow> fallback
              | Some c \<Rightarrow>
                  (case get_property j ''englishPrompt'' of
                     None \<Rightarrow> fallback
                   | Some p \<Rightarrow>
                       \<lparr> chineseDescription = or_json c no_chinese_description,
                         englishPrompt = or_json p ''Could not generate prompt'' \<rparr>)))"

text \<open>
  The outer \<^verbatim>\<open>catch\<close> logs the error and throws it again, so an error of the body is the
  error of the call.
\<close>

definition analyzeFrame ::
  "env \<Rightarrow> string \<Rightarrow> string option \<Rightarrow> call list \<times> (js_error + AnalysisResult)" where
  "analyzeFrame e base64Image customKey =
     (case getClient e customKey of
        Inl err \<Rightarrow> ([], Inl err)
      | Inr ai \<Rightarrow>
          (let request = analyze_request base64Image in
           case generateContent e ai 0 request of
             Inl err \<Rightarrow> ([GenerateContent request], Inl err)
           | Inr response \<Rightarrow>
               ([GenerateContent request],
                case response_text response of
                  Some t \<Rightarrow>
                    (if t \<noteq> [] then Inr (parse_analysis e t)
                     else Inl (new_Error ''No text response received from Gemini.''))
                | None \<Rightarrow> Inl (new_Error ''No text response received from Gemini.''))))"

subsection \<open>generateImageFromPrompt\<close>

definition image_request :: "string \<Rightarrow> string \<Rightarrow> content_request" where
  "image_request prompt aspectRatio =
     \<lparr> cr_model = ''gemini-2.5-flash-image'', cr_parts = [Text prompt],
       cr_responseMimeType = None, cr_aspectRatio = Some aspectRatio \<rparr>"

text \<open>\<^verbatim>\<open>response.candidates?.[0]?.content?.parts\<close>\<close>

definition first_parts :: "content_response \<Rightarrow> response_part list option" where
  "first_parts response =
     (case candidates response of
        None \<Rightarrow> None
      | Some cs \<Rightarrow>
          (case at_index cs 0 of
             None \<Rightarrow> None
           | Some c \<Rightarrow> (case content c of None \<Rightarrow> None | Some k \<Rightarrow> content_parts k)))"

text \<open>\<^verbatim>\<open>part.inlineData && part.inlineData.data\<close>, and the data URL built from such a part.\<close>

definition image_of_part :: "response_part \<Rightarrow> string option" where
  "image_of_part p =
     (case inlineData p of
        None \<Rightarrow> None
      | Some d \<Rightarrow>
          (case inline_bytes d of
             None \<Rightarrow> None
           | Some b \<Rightarrow>
               (if b = [] then None
                else Some (''data:'' @ or_default (inline_mimeType d) ''image/png''
                           @ '';base64,'' @ b))))"

fun first_image :: "response_part list \<Rightarrow> js_error + string" where
  "first_image [] = Inl (new_Error ''No image data found in response.'')"
| "first_image (p # ps) = (case image_of_part p of Some u \<Rightarrow> Inr u | None \<Rightarrow> first_image ps)"

definition extract_image :: "content_response \<Rightarrow> js_error + string" where
  "extract_image response =
     (case first_parts response of
        None \<Rightarrow> Inl (new_Error ''No content generated.'')
      | Some ps \<Rightarrow> first_image ps)"

text \<open>The asynchronous function mapped over the array of length \<^verbatim>\<open>count\<close>: request \<open>i\<close>.\<close>

definition image_task :: "env \<Rightarrow> string \<Rightarrow> string \<Rightarrow> string \<Rightarrow> nat \<Rightarrow> js_error + string" where
  "image_task e ai prompt aspectRatio i =
     (case generateContent e ai i (image_request prompt aspectRatio) of
        Inl err \<Rightarrow> Inl err
      | Inr response \<Rightarrow> extract_image response)"

text \<open>
  \<^verbatim>\<open>Promise.all\<close> over promises given with the instant each one settles: the values in the
  order of the array when all are fulfilled, otherwise the reason of the promise that is
  rejected first (the earlier one in the array when two are rejected at the same instant).
\<close>

fun earliest :: "(nat \<times> js_error) list \<Rightarrow> (nat \<times> js_error) option" where
  "earliest [] = None"
| "earliest ((t, err) # rest) =
     (case earliest rest of
        None \<Rightarrow> Some (t, err)
      | Some (t', err') \<Rightarrow> (if t \<le> t' then Some (t, err) else Some (t', err')))"

fun rejections :: "(nat \<times> (js_error + 'a)) list \<Rightarrow> (nat \<times> js_error) list" where
  "rejections [] = []"
| "rejections ((t, Inl err) # rest) = (t, err) # rejections rest"
| "rejections ((t, Inr v) # rest) = rejections rest"

fun fulfilled :: "(nat \<times> (js_error + 'a)) list \<Rightarrow> 'a list" where
  "fulfilled [] = []"
| "fulfilled ((t, Inl err) # rest) = fulfilled rest"
| "fulfilled ((t, Inr v) # rest) = v # fulfilled rest"

definition Promise_all :: "(nat \<times> (js_error + 'a)) list \<Rightarrow> js_error + 'a list" where
  "Promise_all ps =
     (case earliest (rejections ps) of
        Some (t, err) \<Rightarrow> Inl err
      | None \<Rightarrow> Inr (fulfilled ps))"

definition generateImageFromPrompt ::
  "env \<Rightarrow> string \<Rightarrow> string \<Rightarrow> nat \<Rightarrow> string option \<Rightarrow> call list \<times> (js_error + string list)" where
  "generateImageFromPrompt e prompt aspectRatio count customKey =
     (case getClient e customKey of
        Inl err \<Rightarrow> ([], Inl err)
      | Inr ai \<Rightarrow>
          (map (\<lambda>i. GenerateContent (image_request prompt aspectRatio)) [0..<count],
           Promise_all
             (map (\<lambda>i. (settled_at e i, image_task e ai prompt aspectRatio i)) [0..<count])))"

subsection \<open>generateVideoFromImage\<close>

text \<open>
  Lines 143 to 146: the variable \<^verbatim>\<open>targetAspectRatio\<close> as a function of the argument
  \<^verbatim>\<open>aspectRatio\<close>.
\<close>

definition targetAspectRatio :: "string \<Rightarrow> string" where
  "targetAspectRatio aspectRatio =
     (if aspectRatio = ''9:16'' \<or> aspectRatio = ''3:4'' then ''9:16'' else ''16:9'')"

definition default_video_prompt :: string where
  "default_video_prompt = ''Animate this scene naturally, cinematic lighting, 4k''"

text \<open>The argument of \<^verbatim>\<open>generateVideos\<close>, lines 148 to 170.\<close>

definition video_request ::
  "string \<Rightarrow> string \<Rightarrow> string \<Rightarrow> string option \<Rightarrow> video_request" where
  "video_request imageBase64 prompt aspectRatio endImageBase64 =
     \<lparr> vr_model = ''veo-3.1-fast-generate-preview'',
       vr_prompt = (if prompt \<noteq> [] then prompt else default_video_prompt),
       vr_imageBytes = stripBase64Prefix imageBase64,
       vr_mimeType = getMimeType imageBase64,
       vr_numberOfVideos = 1,
       vr_resolution = ''720p'',
       vr_aspectRatio = targetAspectRatio aspectRatio,
       vr_lastFrame =
         (case endImageBase64 of
            None \<Rightarrow> None
          | Some d \<Rightarrow> (if d \<noteq> [] then Some (stripBase64Prefix d, getMimeType d) else None)) \<rparr>"

definition is_done :: "operation \<Rightarrow> bool" where
  "is_done operation = (op_done operation = Some True)"

text \<open>
  The loop of lines 172 to 175 entered with the operation and the calls made so far; \<open>k\<close>
  counts the status requests already made.  It returns when an operation is done or a
  status request fails, and not at all otherwise: then the value is \<open>None\<close>.
\<close>

partial_function (option) poll ::
  "env \<Rightarrow> string \<Rightarrow> nat \<Rightarrow> operation \<Rightarrow> call list \<Rightarrow> (call list \<times> (js_error + operation)) option"
where
  "poll e ai k operation calls =
     (if is_done operation then Some (calls, Inr operation)
      else (case getVideosOperation e ai k operation of
              Inl err \<Rightarrow> Some (calls @ [Sleep 5000, GetVideosOperation operation], Inl err)
            | Inr operation' \<Rightarrow>
                poll e ai (Suc k) operation'
                  (calls @ [Sleep 5000, GetVideosOperation operation])))"

text \<open>
  The calls of \<open>m\<close> rounds of the loop, from round \<open>k\<close> on, when the operations seen are
  \<open>ops k\<close>, \<open>ops (k + 1)\<close>, and so on; and the number of status requests among some calls.
\<close>

fun status_requests :: "(nat \<Rightarrow> operation) \<Rightarrow> nat \<Rightarrow> nat \<Rightarrow> call list" where
  "status_requests ops k 0 = []"
| "status_requests ops k (Suc m) =
     Sleep 5000 # GetVideosOperation (ops k) # status_requests ops (Suc k) m"

definition status_request_count :: "call list \<Rightarrow> nat" where
  "status_request_count calls =
     length (filter (\<lambda>c. case c of GetVideosOperation operation \<Rightarrow> True | _ \<Rightarrow> False) calls)"

text \<open>\<^verbatim>\<open>operation.response?.generatedVideos?.[0]?.video?.uri\<close>\<close>

definition downloadLink :: "operation \<Rightarrow> string option" where
  "downloadLink operation =
     (case op_response operation of
        None \<Rightarrow> None
      | Some r \<Rightarrow>
          (case generatedVideos r of
             None \<Rightarrow> None
           | Some vs \<Rightarrow>
               (case at_index vs 0 of
                  None \<Rightarrow> None
                | Some v \<Rightarrow> (case video v of None \<Rightarrow> None | Some w \<Rightarrow> uri w))))"

definition digit :: "nat \<Rightarrow> char" where
  "digit d = char_of (48 + d)"

fun decimal :: "nat \<Rightarrow> string" where
  "decimal n = (if n < 10 then [digit n] else decimal (n div 10) @ [digit (n mod 10)])"

declare decimal.simps [simp del]

text \<open>A string or \<^verbatim>\<open>undefined\<close> inside a template literal.\<close>

definition template_of :: "string option \<Rightarrow> string" where
  "template_of v = (case v of Some s \<Rightarrow> s | None \<Rightarrow> ''undefined'')"

definition http_ok :: "http_response \<Rightarrow> bool" where
  "http_ok r = (200 \<le> resp_status r \<and> resp_status r \<le> 299)"

definition finalUrl :: "env \<Rightarrow> string option \<Rightarrow> string \<Rightarrow> string" where
  "finalUrl e customKey link =
     link @ (if includes_str link ''?'' then ''&'' else ''?'') @ ''key=''
       @ template_of (resolve_key e customKey)"

text \<open>Lines 177 to 196, after the loop.\<close>

definition download ::
  "env \<Rightarrow> string option \<Rightarrow> operation \<Rightarrow> call list \<Rightarrow> call list \<times> (js_error + string)" where
  "download e customKey operation calls =
     (case downloadLink operation of
        None \<Rightarrow> (calls, Inl (new_Error ''Video generation failed: No URI returned.''))
      | Some link \<Rightarrow>
          (if link = [] then (calls, Inl (new_Error ''Video generation failed: No URI returned.''))
           else
             (let url = finalUrl e customKey link in
              case fetch e url of
                Inl err \<Rightarrow> (calls @ [Fetch url], Inl err)
              | Inr videoResponse \<Rightarrow>
                  (calls @ [Fetch url],
                   if \<not> http_ok videoResponse
                   then Inl (new_Error (''Failed to download video: ''
                               @ resp_statusText videoResponse @ '' (''
                               @ decimal (resp_status videoResponse) @ '')''))
                   else (case resp_blob videoResponse of
                           Inl err \<Rightarrow> Inl err
                         | Inr b \<Rightarrow> Inr (createObjectURL e b))))))"

text \<open>The body of the \<^verbatim>\<open>try\<close>, lines 138 to 196.\<close>

definition video_body ::
  "env \<Rightarrow> string \<Rightarrow> string \<Rightarrow> string \<Rightarrow> string option \<Rightarrow> string option
     \<Rightarrow> (call list \<times> (js_error + string)) option" where
  "video_body e imageBase64 prompt aspectRatio customKey endImageBase64 =
     (case getClient e customKey of
        Inl err \<Rightarrow> Some ([], Inl err)
      | Inr ai \<Rightarrow>
          (let request = video_request imageBase64 prompt aspectRatio endImageBase64 in
           case generateVideos e ai request of
             Inl err \<Rightarrow> Some ([GenerateVideos request], Inl err)
           | Inr operation \<Rightarrow>
               (case poll e ai 0 operation [GenerateVideos request] of
                  None \<Rightarrow> None
                | Some (calls, Inl err) \<Rightarrow> Some (calls, Inl err)
                | Some (calls, Inr finished) \<Rightarrow> Some (download e customKey finished calls))))"

text \<open>The \<^verbatim>\<open>catch\<close> of lines 198 to 205.\<close>

definition indicates_403 :: "js_error \<Rightarrow> bool" where
  "indicates_403 err =
     (err_status err = Some 403 \<or> err_code err = Some 403
      \<or> (case err_message err of Some m \<Rightarrow> m \<noteq> [] \<and> includes_str m ''403'' | None \<Rightarrow> False))"

definition billing_error :: js_error where
  "billing_error = new_Error
     (''Permission Denied (403): Veo requires a PAID Google Cloud API Key with billing ''
      @ ''enabled. Please set a valid key in the top right corner.'')"

definition catch_403 :: "js_error + 'a \<Rightarrow> js_error + 'a" where
  "catch_403 r =
     (case r of
        Inl err \<Rightarrow> (if indicates_403 err then Inl billing_error else Inl err)
      | Inr v \<Rightarrow> Inr v)"

definition generateVideoFromImage ::
  "env \<Rightarrow> string \<Rightarrow> string \<Rightarrow> string \<Rightarrow> string option \<Rightarrow> string option
     \<Rightarrow> (call list \<times> (js_error + string)) option" where
  "generateVideoFromImage e imageBase64 prompt aspectRatio customKey endImageBase64 =
     (case video_body e imageBase64 prompt aspectRatio customKey endImageBase64 of
        None \<Rightarrow> None
      | Some (calls, r) \<Rightarrow> Some (calls, catch_403 r))"

section \<open>CreativeStudio: handleGenerate\<close>




text \<open>\<^verbatim>\<open>handleSaveToGallery\<close>: the only place where the component calls \<^verbatim>\<open>onImageSaved\<close>.\<close>

definition handleSaveToGallery :: "GeneratedImage \<Rightarrow> call list" where
  "handleSaveToGallery img = [OnImageSaved img]"


section \<open>Example inputs\<close>

definition ex_a :: CapturedFrame where
  "ex_a = \<lparr> frame_id = ''frame-1-a'', dataUrl = ''data:image/jpeg;base64,AAAA'', timestamp = 1,
            createdAt = 1000, isGenerated = None, width = Some 640, height = Some 360 \<rparr>"

definition ex_b :: CapturedFrame where
  "ex_b = \<lparr> frame_id = ''frame-2-b'', dataUrl = ''data:image/jpeg;base64,BBBB'', timestamp = 2,
            createdAt = 2000, isGenerated = None, width = Some 640, height = Some 360 \<rparr>"

definition ex_img :: GeneratedImage where
  "ex_img = \<lparr> img_id = ''img-3-c'', img_dataUrl = ''data:image/png;base64,CCCC'',
              promptUsed = ''a cat'', img_createdAt = 3000 \<rparr>"

definition ex_key_app :: "string \<Rightarrow> App" where
  "ex_key_app typed =
     (initial_app [storage_key \<mapsto> ''AIzaOldKey''])\<lparr> apiKey := typed, showKeyInput := True \<rparr>"

definition ex_submitted :: operation where
  "ex_submitted = \<lparr> op_done = None, op_response = None \<rparr>"

definition ex_pending :: operation where
  "ex_pending = \<lparr> op_done = Some False, op_response = None \<rparr>"

definition ex_finished :: operation where
  "ex_finished =
     \<lparr> op_done = Some True,
       op_response = Some \<lparr> generatedVideos =
         Some [\<lparr> video = Some \<lparr> uri = Some ''https://example.com/v.mp4'' \<rparr> \<rparr>] \<rparr> \<rparr>"

definition ex_image_response :: content_response where
  "ex_image_response =
     \<lparr> response_text = None,
       candidates = Some [\<lparr> content = Some \<lparr> content_parts =
         Some [\<lparr> inlineData = Some \<lparr> inline_bytes = Some ''QUJD'',
                                        inline_mimeType = Some ''image/png'' \<rparr> \<rparr>] \<rparr> \<rparr>] \<rparr>"

definition ex_forbidden :: js_error where
  "ex_forbidden = \<lparr> err_status = Some 403, err_code = None, err_message = Some ''Forbidden'' \<rparr>"

definition ex_overloaded :: js_error where
  "ex_overloaded =
     \<lparr> err_status = Some 503, err_code = None, err_message = Some ''The model is overloaded.'' \<rparr>"

text \<open>
  An environment in which the key comes from the environment variable, the text answer is
  not JSON, the second of the image requests fails, and the video operation is pending at
  the first two status requests and finished at the third.
\<close>

definition ex_env :: env where
  "ex_env =
     \<lparr> API_KEY = Some ''AIzaEnvKey'',
       generateContent = (\<lambda>ai i request.
          if cr_model request = ''gemini-2.5-flash-image''
          then (if i = 1 then Inl ex_overloaded else Inr ex_image_response)
          else Inr \<lparr> response_text = Some ''A cat on a sofa'', candidates = None \<rparr>),
       settled_at = (\<lambda>i. i),
       generateVideos = (\<lambda>ai request. Inr ex_submitted),
       getVideosOperation = (\<lambda>ai k operation. if k < 2 then Inr ex_pending else Inr ex_finished),
       fetch = (\<lambda>url. Inr \<lparr> resp_status = 200, resp_statusText = ''OK'',
                             resp_blob = Inr ''video-bytes'' \<rparr>),
       createObjectURL = (\<lambda>b. ''blob:clipforge/1''),
       JSON_parse = (\<lambda>t. None) \<rparr>"

definition ex_ops :: "nat \<Rightarrow> operation" where
  "ex_ops i = (if i = 0 then ex_submitted else if i < 3 then ex_pending else ex_finished)"


section \<open>Properties of the gallery\<close>

lemma step_keeps_selection:
  assumes "selection_resolves a"
  shows "selection_resolves (step a e)"
proof (cases e)
  case (Capture f)
  with assms show ?thesis
    by (auto simp: selection_resolves_def handleCapture_def split: option.splits)
next
  case (ClickThumbnail n)
  with assms show ?thesis
    by (auto simp: selection_resolves_def handleSelectFrame_def at_index_def
             split: option.splits if_splits)
next
  case (Delete i)
  with assms show ?thesis
    by (auto simp: selection_resolves_def handleDeleteFrame_def split: option.splits if_splits)
next
  case (ImageSaved img)
  with assms show ?thesis
    by (auto simp: selection_resolves_def handleImageSaved_def Let_def split: option.splits)
next
  case (SetStep s)
  with assms show ?thesis
    by (auto simp: selection_resolves_def split: option.splits)
qed

lemma foldl_step_keeps_selection:
  "selection_resolves a \<Longrightarrow> selection_resolves (foldl step a evs)"
  by (induction evs arbitrary: a) (simp_all add: step_keeps_selection)

lemma initial_selection: "selection_resolves (initial_app ls)"
  by (simp add: selection_resolves_def initial_app_def)

lemma reachable_selection: "selection_resolves (run_events (initial_app ls) evs)"
  unfolding run_events_def by (rule foldl_step_keeps_selection [OF initial_selection])

lemma empty_gallery_no_selection:
  "selection_resolves a \<Longrightarrow> frames a = [] \<Longrightarrow> selectedFrame a = None"
  by (cases "selectedFrame a") (simp_all add: selection_resolves_def)




section \<open>Properties of the service functions used below\<close>

lemma includes_str_prefix: "prefix p s \<Longrightarrow> includes_str s p"
  by (cases s) auto

lemma includes_str_mid: "includes_str (xs @ p @ ys) p"
proof (induction xs)
  case Nil
  show ?case by (simp add: includes_str_prefix)
next
  case (Cons x xs)
  then show ?case by simp
qed

lemma poll_returns:
  assumes "\<And>i. i < m \<Longrightarrow> getVideosOperation e ai (k + i) (ops (k + i)) = Inr (ops (Suc (k + i)))"
      and "\<And>i. i < m \<Longrightarrow> \<not> is_done (ops (k + i))"
      and "is_done (ops (k + m))"
  shows "poll e ai k (ops k) calls = Some (calls @ status_requests ops k m, Inr (ops (k + m)))"
  using assms
proof (induction m arbitrary: k calls)
  case 0
  then show ?case by (subst poll.simps) simp
next
  case (Suc m)
  have nd: "\<not> is_done (ops k)" using Suc.prems(2) [of 0] by simp
  have st: "getVideosOperation e ai k (ops k) = Inr (ops (Suc k))"
    using Suc.prems(1) [of 0] by simp
  have ih: "poll e ai (Suc k) (ops (Suc k)) (calls @ [Sleep 5000, GetVideosOperation (ops k)])
      = Some ((calls @ [Sleep 5000, GetVideosOperation (ops k)]) @ status_requests ops (Suc k) m,
              Inr (ops (Suc k + m)))"
  proof (rule Suc.IH)
    fix i assume "i < m"
    then show "getVideosOperation e ai (Suc k + i) (ops (Suc k + i)) = Inr (ops (Suc (Suc k + i)))"
      using Suc.prems(1) [of "Suc i"] by simp
  next
    fix i assume "i < m"
    then show "\<not> is_done (ops (Suc k + i))"
      using Suc.prems(2) [of "Suc i"] by simp
  next
    show "is_done (ops (Suc k + m))" using Suc.prems(3) by simp
  qed
  show ?case
    by (subst poll.simps) (simp add: nd st ih)
qed

lemma poll_never_done:
  assumes ret: "poll e ai k operation calls = Some r"
  shows "\<not> (\<exists>ops. operation = ops k
            \<and> (\<forall>i\<ge>k. getVideosOperation e ai i (ops i) = Inr (ops (Suc i)) \<and> \<not> is_done (ops i)))"
proof (rule poll.raw_induct
    [where P = "\<lambda>e ai k operation calls r. \<not> (\<exists>ops. operation = ops k
            \<and> (\<forall>i\<ge>k. getVideosOperation e ai i (ops i) = Inr (ops (Suc i)) \<and> \<not> is_done (ops i)))",
     OF _ ret], goal_cases)
  case (1 poll' e ai k operation calls r)
  show ?case
  proof
    assume "\<exists>ops. operation = ops k
            \<and> (\<forall>i\<ge>k. getVideosOperation e ai i (ops i) = Inr (ops (Suc i)) \<and> \<not> is_done (ops i))"
    then obtain ops where ops: "operation = ops k"
      "\<forall>i\<ge>k. getVideosOperation e ai i (ops i) = Inr (ops (Suc i)) \<and> \<not> is_done (ops i)"
      by blast
    from ops have "\<not> is_done operation" "getVideosOperation e ai k operation = Inr (ops (Suc k))"
      by auto
    with "1"(2) have "poll' e ai (Suc k) (ops (Suc k))
        (calls @ [Sleep 5000, GetVideosOperation operation]) = Some r"
      by simp
    then have "\<not> (\<exists>ops'. ops (Suc k) = ops' (Suc k)
            \<and> (\<forall>i\<ge>Suc k. getVideosOperation e ai i (ops' i) = Inr (ops' (Suc i))
                  \<and> \<not> is_done (ops' i)))"
      by (rule "1"(1))
    moreover have "\<forall>i\<ge>Suc k. getVideosOperation e ai i (ops i) = Inr (ops (Suc i))
                  \<and> \<not> is_done (ops i)"
      using ops(2) by simp
    ultimately show False by blast
  qed
qed

lemma poll_diverges:
  assumes "\<And>i. getVideosOperation e ai (k + i) (ops (k + i)) = Inr (ops (Suc (k + i)))"
      and "\<And>i. \<not> is_done (ops (k + i))"
  shows "poll e ai k (ops k) calls = None"
proof (cases "poll e ai k (ops k) calls")
  case None
  then show ?thesis .
next
  case (Some r)
  have "\<forall>i\<ge>k. getVideosOperation e ai i (ops i) = Inr (ops (Suc i)) \<and> \<not> is_done (ops i)"
  proof (intro allI impI)
    fix i assume "k \<le> i"
    then obtain j where "i = k + j" by (auto simp: le_iff_add)
    with assms show "getVideosOperation e ai i (ops i) = Inr (ops (Suc i)) \<and> \<not> is_done (ops i)"
      by simp
  qed
  with poll_never_done [OF Some] show ?thesis by blast
qed

lemma poll_fails:
  assumes "\<And>i. i < m \<Longrightarrow> getVideosOperation e ai (k + i) (ops (k + i)) = Inr (ops (Suc (k + i)))"
      and "\<And>i. i \<le> m \<Longrightarrow> \<not> is_done (ops (k + i))"
      and "getVideosOperation e ai (k + m) (ops (k + m)) = Inl err"
  shows "poll e ai k (ops k) calls = Some (calls @ status_requests ops k (Suc m), Inl err)"
  using assms
proof (induction m arbitrary: k calls)
  case 0
  have "\<not> is_done (ops k)" using "0.prems"(2) [of 0] by simp
  with "0.prems"(3) show ?case by (subst poll.simps) simp
next
  case (Suc m)
  have nd: "\<not> is_done (ops k)" using Suc.prems(2) [of 0] by simp
  have st: "getVideosOperation e ai k (ops k) = Inr (ops (Suc k))"
    using Suc.prems(1) [of 0] by simp
  have ih: "poll e ai (Suc k) (ops (Suc k)) (calls @ [Sleep 5000, GetVideosOperation (ops k)])
      = Some ((calls @ [Sleep 5000, GetVideosOperation (ops k)])
                @ status_requests ops (Suc k) (Suc m), Inl err)"
  proof (rule Suc.IH)
    fix i assume "i < m"
    then show "getVideosOperation e ai (Suc k + i) (ops (Suc k + i)) = Inr (ops (Suc (Suc k + i)))"
      using Suc.prems(1) [of "Suc i"] by simp
  next
    fix i assume "i \<le> m"
    then show "\<not> is_done (ops (Suc k + i))"
      using Suc.prems(2) [of "Suc i"] by simp
  next
    show "getVideosOperation e ai (Suc k + m) (ops (Suc k + m)) = Inl err"
      using Suc.prems(3) by simp
  qed
  show ?case
    by (subst poll.simps) (simp add: nd st ih)
qed

lemma poll_extends:
  assumes ret: "poll e ai k operation calls = Some (calls', r)"
  shows "prefix calls calls'"
proof -
  have "prefix calls (fst (calls', r))"
  proof (rule poll.raw_induct
      [where P = "\<lambda>e ai k operation calls res. prefix calls (fst res)", OF _ ret], goal_cases)
    case (1 poll' e ai k operation calls res)
    show ?case
    proof (cases "is_done operation")
      case True
      with "1"(2) show ?thesis by auto
    next
      case False
      show ?thesis
      proof (cases "getVideosOperation e ai k operation")
        case (Inl err)
        with False "1"(2) show ?thesis by auto
      next
        case (Inr operation')
        with False "1"(2) have "poll' e ai (Suc k) operation'
            (calls @ [Sleep 5000, GetVideosOperation operation]) = Some res"
          by simp
        then have "prefix (calls @ [Sleep 5000, GetVideosOperation operation]) (fst res)"
          by (rule "1"(1))
        then show ?thesis
          by (rule append_prefixD)
      qed
    qed
  qed
  then show ?thesis by simp
qed

lemma count_status_requests [simp]:
  "status_request_count (status_requests ops k m) = m"
  by (induction m arbitrary: k) (simp_all add: status_request_count_def)

lemma status_request_count_append [simp]:
  "status_request_count (xs @ ys) = status_request_count xs + status_request_count ys"
  by (simp add: status_request_count_def)

lemma earliest_in: "earliest xs = Some p \<Longrightarrow> p \<in> set xs"
  by (induction xs arbitrary: p rule: earliest.induct) (auto split: option.splits if_splits)


lemma rejections_iff: "(t, err) \<in> set (rejections ps) \<longleftrightarrow> (t, Inl err) \<in> set ps"
  by (induction ps rule: rejections.induct) auto


lemma Promise_all_error_origin:
  assumes "Promise_all ps = Inl err"
  shows "\<exists>t. (t, Inl err) \<in> set ps"
proof (cases "earliest (rejections ps)")
  case None
  with assms show ?thesis by (simp add: Promise_all_def)
next
  case (Some p)
  obtain t' err' where p: "p = (t', err')" by (cases p)
  with Some have "(t', err') \<in> set (rejections ps)" by (simp add: earliest_in)
  then have "(t', Inl err') \<in> set ps" by (simp add: rejections_iff)
  moreover from Some p assms have "err' = err" by (simp add: Promise_all_def)
  ultimately show ?thesis by blast
qed




lemma status_request_count_Cons:
  "status_request_count (c # calls) =
     (case c of GetVideosOperation operation \<Rightarrow> 1 | _ \<Rightarrow> 0) + status_request_count calls"
  "status_request_count [] = 0"
  by (simp_all add: status_request_count_def split: call.splits)

lemma ex_env_final_url:
  "finalUrl ex_env None ''https://example.com/v.mp4'' = ''https://example.com/v.mp4?key=AIzaEnvKey''"
  by (simp add: finalUrl_def resolve_key_def or_else_def template_of_def ex_env_def)

lemma download_extends: "prefix calls (fst (download e customKey operation calls))"
  by (simp add: download_def Let_def split: option.splits sum.splits)

lemma video_body_first_call:
  assumes "getClient e customKey = Inr ai"
      and "video_body e imageBase64 prompt aspectRatio customKey endImage = Some (calls, r)"
  shows "prefix [GenerateVideos (video_request imageBase64 prompt aspectRatio endImage)] calls"
proof -
  let ?request = "video_request imageBase64 prompt aspectRatio endImage"
  show ?thesis
  proof (cases "generateVideos e ai ?request")
    case (Inl err)
    with assms show ?thesis by (simp add: video_body_def Let_def)
  next
    case (Inr operation)
    show ?thesis
    proof (cases "poll e ai 0 operation [GenerateVideos ?request]")
      case None
      with assms Inr show ?thesis by (simp add: video_body_def Let_def)
    next
      case (Some res)
      obtain calls' r' where res: "res = (calls', r')" by (cases res)
      with Some have ext: "prefix [GenerateVideos ?request] calls'"
        by (auto dest: poll_extends)
      show ?thesis
      proof (cases r')
        case (Inl err)
        with assms Inr Some res ext show ?thesis by (simp add: video_body_def Let_def)
      next
        case (Inr finished)
        with assms \<open>generateVideos e ai ?request = Inr operation\<close> Some res
        have "download e customKey finished calls' = (calls, r)"
          by (simp add: video_body_def Let_def)
        then have "prefix calls' calls"
          using download_extends [of calls' e customKey finished] by simp
        with ext show ?thesis by (rule prefix_order.trans)
      qed
    qed
  qed
qed

lemma decimal_403: "decimal 403 = ''403''"
  by code_simp

lemma download_failure_indicates_403:
  "indicates_403 (new_Error (''Failed to download video: '' @ statusText @ '' ('' @ decimal 403 @ '')''))"
proof -
  have "includes_str ((''Failed to download video: '' @ statusText @ '' ('') @ ''403'' @ '')'') ''403''"
    by (rule includes_str_mid)
  then show ?thesis
    by (simp add: indicates_403_def new_Error_def decimal_403)
qed

lemma download_status_403:
  assumes "resp_status videoResponse = 403"
  shows "\<not> http_ok videoResponse"
    and "indicates_403 (new_Error (''Failed to download video: '' @ resp_statusText videoResponse
            @ '' ('' @ decimal (resp_status videoResponse) @ '')''))"
  using assms download_failure_indicates_403 [of "resp_statusText videoResponse"]
  by (simp_all add: http_ok_def)

lemma video_reaches_download:
  assumes "getClient e customKey = Inr ai
      \<and> generateVideos e ai (video_request img prompt aspectRatio endImage) = Inr (ops 0)
      \<and> (\<forall>i<n. getVideosOperation e ai i (ops i) = Inr (ops (Suc i)) \<and> \<not> is_done (ops i))
      \<and> is_done (ops n)
      \<and> downloadLink (ops n) = Some link \<and> link \<noteq> []"
  shows "generateVideoFromImage e img prompt aspectRatio customKey endImage
          = Some (fst (download e customKey (ops n)
                         (GenerateVideos (video_request img prompt aspectRatio endImage)
                            # status_requests ops 0 n)),
                  catch_403 (snd (download e customKey (ops n)
                         (GenerateVideos (video_request img prompt aspectRatio endImage)
                            # status_requests ops 0 n))))"
proof -
  let ?request = "video_request img prompt aspectRatio endImage"
  have "poll e ai 0 (ops 0) [GenerateVideos ?request]
          = Some ([GenerateVideos ?request] @ status_requests ops 0 n, Inr (ops (0 + n)))"
    using assms by (intro poll_returns) simp_all
  with assms show ?thesis
    by (simp add: generateVideoFromImage_def video_body_def Let_def split: prod.splits)
qed

lemma ex_env_final_url_fetch:
  "finalUrl (ex_env\<lparr>fetch := f\<rparr>) None ''https://example.com/v.mp4''
     = ''https://example.com/v.mp4?key=AIzaEnvKey''"
  by (simp add: finalUrl_def resolve_key_def or_else_def template_of_def ex_env_def)

lemma ex_env_fetch_stage:
  "getClient (ex_env\<lparr>fetch := f\<rparr>) None = Inr ''AIzaEnvKey''
   \<and> generateVideos (ex_env\<lparr>fetch := f\<rparr>) ''AIzaEnvKey'' request = Inr (ex_ops 0)
   \<and> (\<forall>i<3. getVideosOperation (ex_env\<lparr>fetch := f\<rparr>) ''AIzaEnvKey'' i (ex_ops i)
                = Inr (ex_ops (Suc i))
              \<and> \<not> is_done (ex_ops i))
   \<and> is_done (ex_ops 3)
   \<and> downloadLink (ex_ops 3) = Some ''https://example.com/v.mp4''
   \<and> ''https://example.com/v.mp4'' \<noteq> []"
  by (simp add: getClient_def resolve_key_def or_else_def ex_env_def ex_ops_def is_done_def
        ex_submitted_def ex_pending_def ex_finished_def downloadLink_def at_index_def)

lemma decimal_500: "decimal 500 = ''500''"
  by code_simp

lemma trim_not_a_key: "trim ''not-a-key'' = ''not-a-key''"
  by code_simp

lemma trim_good_key: "trim '' AIzaSyNewKey  '' = ''AIzaSyNewKey''"
  by code_simp

section \<open>The claims\<close>

text \<open>
  C1.  Whatever the user does, starting from the gallery the component mounts with (no
  frame, no selection): captures, clicks on rendered thumbnails, deletions and saved
  generated images in any order leave the selection either null or carrying the id of a
  frame that is in the gallery.
\<close>

theorem selection_never_dangles:
  "selection_resolves (run_events (initial_app ls) evs)"
  by (rule reachable_selection)

theorem selection_never_dangles_witness:
  "selection_resolves (run_events (initial_app Map.empty)
     [Capture ex_a, Capture ex_b, ClickThumbnail 1, Delete ''frame-1-a'', ImageSaved ex_img])
   \<and> selectedFrame (run_events (initial_app Map.empty)
     [Capture ex_a, Capture ex_b, ClickThumbnail 1, Delete ''frame-1-a'', ImageSaved ex_img])
     = Some ex_b"
  using selection_never_dangles [of Map.empty
     "[Capture ex_a, Capture ex_b, ClickThumbnail 1, Delete ''frame-1-a'', ImageSaved ex_img]"]
  by (simp add: run_events_def initial_app_def or_default_def handleCapture_def
        handleSelectFrame_def handleDeleteFrame_def handleImageSaved_def at_index_def
        ex_a_def ex_b_def ex_img_def)




text \<open>
  C3, as the code has it.  In every gallery the user can reach, \<^verbatim>\<open>handleCapture\<close> appends
  the frame at the end; when the gallery is empty, and more generally whenever nothing is
  selected, the new frame becomes the selection; when a frame is selected the selection
  is left as it was.
\<close>

theorem capture_appends_and_selects_when_unselected:
  assumes "a = run_events (initial_app ls) evs"
  shows "frames (handleCapture a f) = frames a @ [f]
         \<and> (frames a = [] \<longrightarrow> selectedFrame (handleCapture a f) = Some f)
         \<and> (selectedFrame a = None \<longrightarrow> selectedFrame (handleCapture a f) = Some f)
         \<and> (selectedFrame a \<noteq> None \<longrightarrow> selectedFrame (handleCapture a f) = selectedFrame a)"
proof -
  have "selection_resolves a"
    unfolding assms by (rule reachable_selection)
  then have "frames a = [] \<longrightarrow> selectedFrame a = None"
    by (simp add: empty_gallery_no_selection)
  then show ?thesis
    by (auto simp: handleCapture_def)
qed

theorem capture_appends_and_selects_when_unselected_witness:
  "frames (handleCapture (run_events (initial_app Map.empty) [Capture ex_a]) ex_b) = [ex_a, ex_b]
   \<and> selectedFrame (handleCapture (run_events (initial_app Map.empty) [Capture ex_a]) ex_b)
       = Some ex_a
   \<and> selectedFrame (handleCapture (run_events (initial_app Map.empty) []) ex_a) = Some ex_a"
  using capture_appends_and_selects_when_unselected
     [of "run_events (initial_app Map.empty) [Capture ex_a]" Map.empty "[Capture ex_a]" ex_b]
    capture_appends_and_selects_when_unselected
     [of "run_events (initial_app Map.empty) []" Map.empty "[]" ex_a]
  by (simp add: run_events_def initial_app_def or_default_def handleCapture_def)

text \<open>
  C3 as stated fails: after a generated image is saved to the gallery nothing is selected
  although the gallery holds a frame, and the next capture becomes the selection.
\<close>

theorem capture_on_nonempty_gallery_counterexample:
  "frames (run_events (initial_app Map.empty) [ImageSaved ex_img]) \<noteq> []
   \<and> selectedFrame (run_events (initial_app Map.empty) [ImageSaved ex_img]) = None
   \<and> selectedFrame (handleCapture (run_events (initial_app Map.empty) [ImageSaved ex_img]) ex_a)
       = Some ex_a"
  by (simp add: run_events_def initial_app_def or_default_def handleCapture_def
        handleImageSaved_def)

text \<open>
  C4, as the code has it.  Only \<^verbatim>\<open>generateVideoFromImage\<close> examines errors.  An error of
  the submission, of a status request, of \<^verbatim>\<open>fetch\<close> or of reading the body is replaced by
  the billing error when its status or its code is 403 or its message contains \<^verbatim>\<open>403\<close> and
  is thrown unchanged otherwise; a download answered with a status outside 200 to 299
  gives the error built from the status text and the status, classified in the same way,
  hence the billing error for status 403 whatever the status text.  \<^verbatim>\<open>analyzeFrame\<close> throws
  the error of its remote call unchanged, and an error thrown by
  \<^verbatim>\<open>generateImageFromPrompt\<close> is the unchanged error of one of its requests, 403 or not.
\<close>

theorem only_video_reclassifies_403:
  "(getClient e customKey = Inr ai
      \<and> generateVideos e ai (video_request img prompt aspectRatio endImage) = Inl err
    \<longrightarrow> generateVideoFromImage e img prompt aspectRatio customKey endImage
          = Some ([GenerateVideos (video_request img prompt aspectRatio endImage)],
                  Inl (if indicates_403 err then billing_error else err)))
   \<and> (getClient e customKey = Inr ai
      \<and> generateVideos e ai (video_request img prompt aspectRatio endImage) = Inr (ops 0)
      \<and> (\<forall>i<n. getVideosOperation e ai i (ops i) = Inr (ops (Suc i)))
      \<and> (\<forall>i\<le>n. \<not> is_done (ops i))
      \<and> getVideosOperation e ai n (ops n) = Inl err
    \<longrightarrow> generateVideoFromImage e img prompt aspectRatio customKey endImage
          = Some (GenerateVideos (video_request img prompt aspectRatio endImage)
                    # status_requests ops 0 (Suc n),
                  Inl (if indicates_403 err then billing_error else err)))
   \<and> (getClient e customKey = Inr ai
      \<and> generateVideos e ai (video_request img prompt aspectRatio endImage) = Inr (ops 0)
      \<and> (\<forall>i<n. getVideosOperation e ai i (ops i) = Inr (ops (Suc i)) \<and> \<not> is_done (ops i))
      \<and> is_done (ops n)
      \<and> downloadLink (ops n) = Some link \<and> link \<noteq> []
      \<and> fetch e (finalUrl e customKey link) = Inl err
    \<longrightarrow> generateVideoFromImage e img prompt aspectRatio customKey endImage
          = Some (GenerateVideos (video_request img prompt aspectRatio endImage)
                    # status_requests ops 0 n @ [Fetch (finalUrl e customKey link)],
                  Inl (if indicates_403 err then billing_error else err)))
   \<and> (getClient e customKey = Inr ai
      \<and> generateVideos e ai (video_request img prompt aspectRatio endImage) = Inr (ops 0)
      \<and> (\<forall>i<n. getVideosOperation e ai i (ops i) = Inr (ops (Suc i)) \<and> \<not> is_done (ops i))
      \<and> is_done (ops n)
      \<and> downloadLink (ops n) = Some link \<and> link \<noteq> []
      \<and> fetch e (finalUrl e customKey link) = Inr videoResponse
      \<and> (resp_status videoResponse < 200 \<or> 299 < resp_status videoResponse)
    \<longrightarrow> generateVideoFromImage e img prompt aspectRatio customKey endImage
          = Some (GenerateVideos (video_request img prompt aspectRatio endImage)
                    # status_requests ops 0 n @ [Fetch (finalUrl e customKey link)],
                  Inl (if indicates_403
                            (new_Error (''Failed to download video: ''
                               @ resp_statusText videoResponse @ '' (''
                               @ decimal (resp_status videoResponse) @ '')''))
                       then billing_error
                       else new_Error (''Failed to download video: ''
                               @ resp_statusText videoResponse @ '' (''
                               @ decimal (resp_status videoResponse) @ '')''))))
   \<and> (getClient e customKey = Inr ai
      \<and> generateVideos e ai (video_request img prompt aspectRatio endImage) = Inr (ops 0)
      \<and> (\<forall>i<n. getVideosOperation e ai i (ops i) = Inr (ops (Suc i)) \<and> \<not> is_done (ops i))
      \<and> is_done (ops n)
      \<and> downloadLink (ops n) = Some link \<and> link \<noteq> []
      \<and> fetch e (finalUrl e customKey link) = Inr videoResponse
      \<and> resp_status videoResponse = 403
    \<longrightarrow> generateVideoFromImage e img prompt aspectRatio customKey endImage
          = Some (GenerateVideos (video_request img prompt aspectRatio endImage)
                    # status_requests ops 0 n @ [Fetch (finalUrl e customKey link)],
                  Inl billing_error))
   \<and> (getClient e customKey = Inr ai
      \<and> generateVideos e ai (video_request img prompt aspectRatio endImage) = Inr (ops 0)
      \<and> (\<forall>i<n. getVideosOperation e ai i (ops i) = Inr (ops (Suc i)) \<and> \<not> is_done (ops i))
      \<and> is_done (ops n)
      \<and> downloadLink (ops n) = Some link \<and> link \<noteq> []
      \<and> fetch e (finalUrl e customKey link) = Inr videoResponse
      \<and> 200 \<le> resp_status videoResponse \<and> resp_status videoResponse \<le> 299
      \<and> resp_blob videoResponse = Inl err
    \<longrightarrow> generateVideoFromImage e img prompt aspectRatio customKey endImage
          = Some (GenerateVideos (video_request img prompt aspectRatio endImage)
                    # status_requests ops 0 n @ [Fetch (finalUrl e customKey link)],
                  Inl (if indicates_403 err then billing_error else err)))
   \<and> (getClient e customKey = Inr ai
      \<and> generateContent e ai 0 (analyze_request img) = Inl err
    \<longrightarrow> analyzeFrame e img customKey
          = ([GenerateContent (analyze_request img)], Inl err))
   \<and> (getClient e customKey = Inr ai
      \<and> snd (generateImageFromPrompt e prompt aspectRatio count customKey) = Inl err
    \<longrightarrow> (\<exists>j<count. image_task e ai prompt aspectRatio j = Inl err))
   \<and> (generateContent e ai j (image_request prompt aspectRatio) = Inl err
    \<longrightarrow> image_task e ai prompt aspectRatio j = Inl err)"
proof (intro conjI impI)
  let ?request = "video_request img prompt aspectRatio endImage"
  let ?stage = "getClient e customKey = Inr ai
      \<and> generateVideos e ai ?request = Inr (ops 0)
      \<and> (\<forall>i<n. getVideosOperation e ai i (ops i) = Inr (ops (Suc i)) \<and> \<not> is_done (ops i))
      \<and> is_done (ops n)
      \<and> downloadLink (ops n) = Some link \<and> link \<noteq> []"
  have at_download: "generateVideoFromImage e img prompt aspectRatio customKey endImage
          = Some (fst (download e customKey (ops n) (GenerateVideos ?request # status_requests ops 0 n)),
                  catch_403 (snd (download e customKey (ops n)
                                    (GenerateVideos ?request # status_requests ops 0 n))))"
    if ?stage
    using that by (rule video_reaches_download)
  {
    assume "getClient e customKey = Inr ai \<and> generateVideos e ai ?request = Inl err"
    then show "generateVideoFromImage e img prompt aspectRatio customKey endImage
          = Some ([GenerateVideos ?request], Inl (if indicates_403 err then billing_error else err))"
      by (simp add: generateVideoFromImage_def video_body_def catch_403_def Let_def)
  }
  {
    assume h: "getClient e customKey = Inr ai
      \<and> generateVideos e ai ?request = Inr (ops 0)
      \<and> (\<forall>i<n. getVideosOperation e ai i (ops i) = Inr (ops (Suc i)))
      \<and> (\<forall>i\<le>n. \<not> is_done (ops i))
      \<and> getVideosOperation e ai n (ops n) = Inl err"
    have "poll e ai 0 (ops 0) [GenerateVideos ?request]
            = Some ([GenerateVideos ?request] @ status_requests ops 0 (Suc n), Inl err)"
      using h by (intro poll_fails) simp_all
    with h show "generateVideoFromImage e img prompt aspectRatio customKey endImage
          = Some (GenerateVideos ?request # status_requests ops 0 (Suc n),
                  Inl (if indicates_403 err then billing_error else err))"
      by (simp add: generateVideoFromImage_def video_body_def catch_403_def Let_def)
  }
  {
    assume h: "getClient e customKey = Inr ai
      \<and> generateVideos e ai ?request = Inr (ops 0)
      \<and> (\<forall>i<n. getVideosOperation e ai i (ops i) = Inr (ops (Suc i)) \<and> \<not> is_done (ops i))
      \<and> is_done (ops n)
      \<and> downloadLink (ops n) = Some link \<and> link \<noteq> []
      \<and> fetch e (finalUrl e customKey link) = Inl err"
    then have ?stage by blast
    from at_download [OF this] h
    show "generateVideoFromImage e img prompt aspectRatio customKey endImage
          = Some (GenerateVideos ?request
                    # status_requests ops 0 n @ [Fetch (finalUrl e customKey link)],
                  Inl (if indicates_403 err then billing_error else err))"
      by (simp add: download_def catch_403_def Let_def)
  }
  {
    assume h: "getClient e customKey = Inr ai
      \<and> generateVideos e ai ?request = Inr (ops 0)
      \<and> (\<forall>i<n. getVideosOperation e ai i (ops i) = Inr (ops (Suc i)) \<and> \<not> is_done (ops i))
      \<and> is_done (ops n)
      \<and> downloadLink (ops n) = Some link \<and> link \<noteq> []
      \<and> fetch e (finalUrl e customKey link) = Inr videoResponse
      \<and> (resp_status videoResponse < 200 \<or> 299 < resp_status videoResponse)"
    then have ?stage by blast
    moreover from h have "\<not> http_ok videoResponse"
      by (auto simp: http_ok_def)
    ultimately
    show "generateVideoFromImage e img prompt aspectRatio customKey endImage
          = Some (GenerateVideos ?request
                    # status_requests ops 0 n @ [Fetch (finalUrl e customKey link)],
                  Inl (if indicates_403
                            (new_Error (''Failed to download video: ''
                               @ resp_statusText videoResponse @ '' (''
                               @ decimal (resp_status videoResponse) @ '')''))
                       then billing_error
                       else new_Error (''Failed to download video: ''
                               @ resp_statusText videoResponse @ '' (''
                               @ decimal (resp_status videoResponse) @ '')'')))"
      using at_download h by (simp add: download_def catch_403_def Let_def)
  }
  {
    assume h: "getClient e customKey = Inr ai
      \<and> generateVideos e ai ?request = Inr (ops 0)
      \<and> (\<forall>i<n. getVideosOperation e ai i (ops i) = Inr (ops (Suc i)) \<and> \<not> is_done (ops i))
      \<and> is_done (ops n)
      \<and> downloadLink (ops n) = Some link \<and> link \<noteq> []
      \<and> fetch e (finalUrl e customKey link) = Inr videoResponse
      \<and> resp_status videoResponse = 403"
    then have ?stage by blast
    from at_download [OF this] h download_status_403 [of videoResponse]
    show "generateVideoFromImage e img prompt aspectRatio customKey endImage
          = Some (GenerateVideos ?request
                    # status_requests ops 0 n @ [Fetch (finalUrl e customKey link)],
                  Inl billing_error)"
      by (simp add: download_def catch_403_def Let_def)
  }
  {
    assume h: "getClient e customKey = Inr ai
      \<and> generateVideos e ai ?request = Inr (ops 0)
      \<and> (\<forall>i<n. getVideosOperation e ai i (ops i) = Inr (ops (Suc i)) \<and> \<not> is_done (ops i))
      \<and> is_done (ops n)
      \<and> downloadLink (ops n) = Some link \<and> link \<noteq> []
      \<and> fetch e (finalUrl e customKey link) = Inr videoResponse
      \<and> 200 \<le> resp_status videoResponse \<and> resp_status videoResponse \<le> 299
      \<and> resp_blob videoResponse = Inl err"
    then have ?stage by blast
    from at_download [OF this] h
    show "generateVideoFromImage e img prompt aspectRatio customKey endImage
          = Some (GenerateVideos ?request
                    # status_requests ops 0 n @ [Fetch (finalUrl e customKey link)],
                  Inl (if indicates_403 err then billing_error else err))"
      by (simp add: download_def catch_403_def http_ok_def Let_def)
  }
  {
    assume "getClient e customKey = Inr ai
      \<and> generateContent e ai 0 (analyze_request img) = Inl err"
    then show "analyzeFrame e img customKey
          = ([GenerateContent (analyze_request img)], Inl err)"
      by (simp add: analyzeFrame_def Let_def)
  }
  {
    assume h: "getClient e customKey = Inr ai
      \<and> snd (generateImageFromPrompt e prompt aspectRatio count customKey) = Inl err"
    then have "Promise_all
        (map (\<lambda>i. (settled_at e i, image_task e ai prompt aspectRatio i)) [0..<count]) = Inl err"
      by (auto simp: generateImageFromPrompt_def)
    then obtain t where
      "(t, Inl err) \<in> set (map (\<lambda>i. (settled_at e i, image_task e ai prompt aspectRatio i)) [0..<count])"
      using Promise_all_error_origin by blast
    then show "\<exists>j<count. image_task e ai prompt aspectRatio j = Inl err"
      by auto
  }
  {
    assume "generateContent e ai j (image_request prompt aspectRatio) = Inl err"
    then show "image_task e ai prompt aspectRatio j = Inl err"
      by (simp add: image_task_def)
  }
qed

theorem only_video_reclassifies_403_witness:
  "generateVideoFromImage (ex_env\<lparr>generateVideos := \<lambda>ai request. Inl ex_forbidden\<rparr>)
      (dataUrl ex_a) ''pan left'' ''16:9'' None None
     = Some ([GenerateVideos (video_request (dataUrl ex_a) ''pan left'' ''16:9'' None)],
             Inl billing_error)
   \<and> generateVideoFromImage
        (ex_env\<lparr>getVideosOperation :=
                  \<lambda>ai k operation. if k < 1 then Inr ex_pending else Inl ex_overloaded\<rparr>)
        (dataUrl ex_a) ''pan left'' ''16:9'' None None
     = Some ([GenerateVideos (video_request (dataUrl ex_a) ''pan left'' ''16:9'' None),
              Sleep 5000, GetVideosOperation ex_submitted,
              Sleep 5000, GetVideosOperation ex_pending],
             Inl ex_overloaded)
   \<and> generateVideoFromImage (ex_env\<lparr>fetch := \<lambda>url. Inl ex_forbidden\<rparr>)
        (dataUrl ex_a) ''pan left'' ''16:9'' None None
     = Some (GenerateVideos (video_request (dataUrl ex_a) ''pan left'' ''16:9'' None)
               # status_requests ex_ops 0 3 @ [Fetch ''https://example.com/v.mp4?key=AIzaEnvKey''],
             Inl billing_error)
   \<and> generateVideoFromImage
        (ex_env\<lparr>fetch := \<lambda>url. Inr \<lparr> resp_status = 500,
                                       resp_statusText = ''Internal Server Error'',
                                       resp_blob = Inr ''video-bytes'' \<rparr>\<rparr>)
        (dataUrl ex_a) ''pan left'' ''16:9'' None None
     = Some (GenerateVideos (video_request (dataUrl ex_a) ''pan left'' ''16:9'' None)
               # status_requests ex_ops 0 3 @ [Fetch ''https://example.com/v.mp4?key=AIzaEnvKey''],
             Inl (new_Error ''Failed to download video: Internal Server Error (500)''))
   \<and> generateVideoFromImage
        (ex_env\<lparr>fetch := \<lambda>url. Inr \<lparr> resp_status = 403, resp_statusText = ''Forbidden'',
                                       resp_blob = Inl ex_overloaded \<rparr>\<rparr>)
        (dataUrl ex_a) ''pan left'' ''16:9'' None None
     = Some (GenerateVideos (video_request (dataUrl ex_a) ''pan left'' ''16:9'' None)
               # status_requests ex_ops 0 3 @ [Fetch ''https://example.com/v.mp4?key=AIzaEnvKey''],
             Inl billing_error)
   \<and> generateVideoFromImage
        (ex_env\<lparr>fetch := \<lambda>url. Inr \<lparr> resp_status = 200, resp_statusText = ''OK'',
                                       resp_blob = Inl ex_overloaded \<rparr>\<rparr>)
        (dataUrl ex_a) ''pan left'' ''16:9'' None None
     = Some (GenerateVideos (video_request (dataUrl ex_a) ''pan left'' ''16:9'' None)
               # status_requests ex_ops 0 3 @ [Fetch ''https://example.com/v.mp4?key=AIzaEnvKey''],
             Inl ex_overloaded)
   \<and> analyzeFrame (ex_env\<lparr>generateContent := \<lambda>ai i request. Inl ex_forbidden\<rparr>)
        (dataUrl ex_a) None
     = ([GenerateContent (analyze_request (dataUrl ex_a))], Inl ex_forbidden)
   \<and> (\<exists>j<2. image_task (ex_env\<lparr>generateContent := \<lambda>ai i request. Inl ex_forbidden\<rparr>)
               ''AIzaEnvKey'' ''a cat'' ''1:1'' j = Inl ex_forbidden)
   \<and> image_task (ex_env\<lparr>generateContent := \<lambda>ai i request. Inl ex_forbidden\<rparr>)
        ''AIzaEnvKey'' ''a cat'' ''1:1'' 0 = Inl ex_forbidden"
proof -
  let ?img = "dataUrl ex_a"
  let ?request = "video_request ?img ''pan left'' ''16:9'' None"
  let ?link = "''https://example.com/v.mp4''"
  let ?url = "''https://example.com/v.mp4?key=AIzaEnvKey''"
  have forbidden: "indicates_403 ex_forbidden"
    by (simp add: indicates_403_def ex_forbidden_def)
  have not403: "\<not> indicates_403 ex_overloaded"
    by (simp add: indicates_403_def ex_overloaded_def)

  let ?e1 = "ex_env\<lparr>generateVideos := \<lambda>ai request. Inl ex_forbidden\<rparr>"
  have h1: "getClient ?e1 None = Inr ''AIzaEnvKey''
      \<and> generateVideos ?e1 ''AIzaEnvKey'' ?request = Inl ex_forbidden"
    by (simp add: getClient_def resolve_key_def or_else_def ex_env_def)
  have c1: "generateVideoFromImage ?e1 ?img ''pan left'' ''16:9'' None None
              = Some ([GenerateVideos ?request], Inl billing_error)"
    using only_video_reclassifies_403
         [where e = ?e1 and customKey = None and ai = "''AIzaEnvKey''" and img = ?img
            and prompt = "''pan left''" and aspectRatio = "''16:9''" and endImage = None
            and err = ex_forbidden, THEN conjunct1, THEN mp, OF h1]
      forbidden by simp

  let ?e2 = "ex_env\<lparr>getVideosOperation :=
                  \<lambda>ai k operation. if k < 1 then Inr ex_pending else Inl ex_overloaded\<rparr>"
  let ?ops2 = "\<lambda>i::nat. if i = 0 then ex_submitted else ex_pending"
  have h2: "getClient ?e2 None = Inr ''AIzaEnvKey''
      \<and> generateVideos ?e2 ''AIzaEnvKey'' ?request = Inr (?ops2 0)
      \<and> (\<forall>i<1. getVideosOperation ?e2 ''AIzaEnvKey'' i (?ops2 i) = Inr (?ops2 (Suc i)))
      \<and> (\<forall>i\<le>1. \<not> is_done (?ops2 i))
      \<and> getVideosOperation ?e2 ''AIzaEnvKey'' 1 (?ops2 1) = Inl ex_overloaded"
    by (simp add: getClient_def resolve_key_def or_else_def ex_env_def is_done_def
          ex_submitted_def ex_pending_def)
  have c2: "generateVideoFromImage ?e2 ?img ''pan left'' ''16:9'' None None
     = Some ([GenerateVideos ?request,
              Sleep 5000, GetVideosOperation ex_submitted,
              Sleep 5000, GetVideosOperation ex_pending],
             Inl ex_overloaded)"
    using only_video_reclassifies_403
         [where e = ?e2 and customKey = None and ai = "''AIzaEnvKey''" and img = ?img
            and prompt = "''pan left''" and aspectRatio = "''16:9''" and endImage = None
            and err = ex_overloaded and ops = ?ops2 and n = 1, THEN conjunct2, THEN conjunct1, THEN mp, OF h2]
      not403 by simp

  let ?e3 = "ex_env\<lparr>fetch := \<lambda>url. Inl ex_forbidden\<rparr>"
  have h3: "getClient ?e3 None = Inr ''AIzaEnvKey''
      \<and> generateVideos ?e3 ''AIzaEnvKey'' ?request = Inr (ex_ops 0)
      \<and> (\<forall>i<3. getVideosOperation ?e3 ''AIzaEnvKey'' i (ex_ops i) = Inr (ex_ops (Suc i))
                 \<and> \<not> is_done (ex_ops i))
      \<and> is_done (ex_ops 3)
      \<and> downloadLink (ex_ops 3) = Some ?link \<and> ?link \<noteq> []
      \<and> fetch ?e3 (finalUrl ?e3 None ?link) = Inl ex_forbidden"
    using ex_env_fetch_stage [of "\<lambda>url. Inl ex_forbidden" ?request] by simp
  have c3: "generateVideoFromImage ?e3 ?img ''pan left'' ''16:9'' None None
     = Some (GenerateVideos ?request # status_requests ex_ops 0 3 @ [Fetch ?url], Inl billing_error)"
    using only_video_reclassifies_403
         [where e = ?e3 and customKey = None and ai = "''AIzaEnvKey''" and img = ?img
            and prompt = "''pan left''" and aspectRatio = "''16:9''" and endImage = None
            and ops = ex_ops and n = 3 and link = ?link and err = ex_forbidden, THEN conjunct2, THEN conjunct2, THEN conjunct1, THEN mp, OF h3]
      forbidden by (simp add: ex_env_final_url_fetch)

  let ?r4 = "\<lparr> resp_status = 500, resp_statusText = ''Internal Server Error'',
                resp_blob = Inr ''video-bytes'' \<rparr>"
  let ?e4 = "ex_env\<lparr>fetch := \<lambda>url. Inr ?r4\<rparr>"
  have h4: "getClient ?e4 None = Inr ''AIzaEnvKey''
      \<and> generateVideos ?e4 ''AIzaEnvKey'' ?request = Inr (ex_ops 0)
      \<and> (\<forall>i<3. getVideosOperation ?e4 ''AIzaEnvKey'' i (ex_ops i) = Inr (ex_ops (Suc i))
                 \<and> \<not> is_done (ex_ops i))
      \<and> is_done (ex_ops 3)
      \<and> downloadLink (ex_ops 3) = Some ?link \<and> ?link \<noteq> []
      \<and> fetch ?e4 (finalUrl ?e4 None ?link) = Inr ?r4
      \<and> (resp_status ?r4 < 200 \<or> 299 < resp_status ?r4)"
    using ex_env_fetch_stage [of "\<lambda>url. Inr ?r4" ?request] by simp
  have c4: "generateVideoFromImage ?e4 ?img ''pan left'' ''16:9'' None None
     = Some (GenerateVideos ?request # status_requests ex_ops 0 3 @ [Fetch ?url],
             Inl (new_Error ''Failed to download video: Internal Server Error (500)''))"
    using only_video_reclassifies_403
         [where e = ?e4 and customKey = None and ai = "''AIzaEnvKey''" and img = ?img
            and prompt = "''pan left''" and aspectRatio = "''16:9''" and endImage = None
            and ops = ex_ops and n = 3 and link = ?link and videoResponse = ?r4, THEN conjunct2, THEN conjunct2, THEN conjunct2, THEN conjunct1, THEN mp, OF h4]
    by (simp add: ex_env_final_url_fetch decimal_500 indicates_403_def new_Error_def)

  let ?r5 = "\<lparr> resp_status = 403, resp_statusText = ''Forbidden'', resp_blob = Inl ex_overloaded \<rparr>"
  let ?e5 = "ex_env\<lparr>fetch := \<lambda>url. Inr ?r5\<rparr>"
  have h5: "getClient ?e5 None = Inr ''AIzaEnvKey''
      \<and> generateVideos ?e5 ''AIzaEnvKey'' ?request = Inr (ex_ops 0)
      \<and> (\<forall>i<3. getVideosOperation ?e5 ''AIzaEnvKey'' i (ex_ops i) = Inr (ex_ops (Suc i))
                 \<and> \<not> is_done (ex_ops i))
      \<and> is_done (ex_ops 3)
      \<and> downloadLink (ex_ops 3) = Some ?link \<and> ?link \<noteq> []
      \<and> fetch ?e5 (finalUrl ?e5 None ?link) = Inr ?r5
      \<and> resp_status ?r5 = 403"
    using ex_env_fetch_stage [of "\<lambda>url. Inr ?r5" ?request] by simp
  have c5: "generateVideoFromImage ?e5 ?img ''pan left'' ''16:9'' None None
     = Some (GenerateVideos ?request # status_requests ex_ops 0 3 @ [Fetch ?url], Inl billing_error)"
    using only_video_reclassifies_403
         [where e = ?e5 and customKey = None and ai = "''AIzaEnvKey''" and img = ?img
            and prompt = "''pan left''" and aspectRatio = "''16:9''" and endImage = None
            and ops = ex_ops and n = 3 and link = ?link and videoResponse = ?r5, THEN conjunct2, THEN conjunct2, THEN conjunct2, THEN conjunct2, THEN conjunct1, THEN mp, OF h5]
    by (simp add: ex_env_final_url_fetch)

  let ?r6 = "\<lparr> resp_status = 200, resp_statusText = ''OK'', resp_blob = Inl ex_overloaded \<rparr>"
  let ?e6 = "ex_env\<lparr>fetch := \<lambda>url. Inr ?r6\<rparr>"
  have h6: "getClient ?e6 None = Inr ''AIzaEnvKey''
      \<and> generateVideos ?e6 ''AIzaEnvKey'' ?request = Inr (ex_ops 0)
      \<and> (\<forall>i<3. getVideosOperation ?e6 ''AIzaEnvKey'' i (ex_ops i) = Inr (ex_ops (Suc i))
                 \<and> \<not> is_done (ex_ops i))
      \<and> is_done (ex_ops 3)
      \<and> downloadLink (ex_ops 3) = Some ?link \<and> ?link \<noteq> []
      \<and> fetch ?e6 (finalUrl ?e6 None ?link) = Inr ?r6
      \<and> 200 \<le> resp_status ?r6 \<and> resp_status ?r6 \<le> 299
      \<and> resp_blob ?r6 = Inl ex_overloaded"
    using ex_env_fetch_stage [of "\<lambda>url. Inr ?r6" ?request] by simp
  have c6: "generateVideoFromImage ?e6 ?img ''pan left'' ''16:9'' None None
     = Some (GenerateVideos ?request # status_requests ex_ops 0 3 @ [Fetch ?url], Inl ex_overloaded)"
    using only_video_reclassifies_403
         [where e = ?e6 and customKey = None and ai = "''AIzaEnvKey''" and img = ?img
            and prompt = "''pan left''" and aspectRatio = "''16:9''" and endImage = None
            and ops = ex_ops and n = 3 and link = ?link and videoResponse = ?r6
            and err = ex_overloaded, THEN conjunct2, THEN conjunct2, THEN conjunct2, THEN conjunct2, THEN conjunct2, THEN conjunct1, THEN mp, OF h6]
      not403 by (simp add: ex_env_final_url_fetch)

  let ?e7 = "ex_env\<lparr>generateContent := \<lambda>ai i request. Inl ex_forbidden\<rparr>"
  have h7: "getClient ?e7 None = Inr ''AIzaEnvKey''
      \<and> generateContent ?e7 ''AIzaEnvKey'' 0 (analyze_request ?img) = Inl ex_forbidden"
    by (simp add: getClient_def resolve_key_def or_else_def ex_env_def)
  have c7: "analyzeFrame ?e7 ?img None = ([GenerateContent (analyze_request ?img)], Inl ex_forbidden)"
    using only_video_reclassifies_403
         [where e = ?e7 and customKey = None and ai = "''AIzaEnvKey''" and img = ?img
            and err = ex_forbidden, THEN conjunct2, THEN conjunct2, THEN conjunct2, THEN conjunct2, THEN conjunct2, THEN conjunct2, THEN conjunct1, THEN mp, OF h7]
    by simp

  have h8: "getClient ?e7 None = Inr ''AIzaEnvKey''
      \<and> snd (generateImageFromPrompt ?e7 ''a cat'' ''1:1'' 2 None) = Inl ex_forbidden"
    by (simp add: getClient_def resolve_key_def or_else_def generateImageFromPrompt_def
          numeral_2_eq_2 Promise_all_def image_task_def ex_env_def)
  have c8: "\<exists>j<2. image_task ?e7 ''AIzaEnvKey'' ''a cat'' ''1:1'' j = Inl ex_forbidden"
    using only_video_reclassifies_403
         [where e = ?e7 and customKey = None and ai = "''AIzaEnvKey''"
            and prompt = "''a cat''" and aspectRatio = "''1:1''" and count = 2
            and err = ex_forbidden, THEN conjunct2, THEN conjunct2, THEN conjunct2, THEN conjunct2, THEN conjunct2, THEN conjunct2, THEN conjunct2, THEN conjunct1, THEN mp, OF h8]
    by simp

  have h9: "generateContent ?e7 ''AIzaEnvKey'' 0 (image_request ''a cat'' ''1:1'') = Inl ex_forbidden"
    by (simp add: ex_env_def)
  have c9: "image_task ?e7 ''AIzaEnvKey'' ''a cat'' ''1:1'' 0 = Inl ex_forbidden"
    using only_video_reclassifies_403
         [where e = ?e7 and ai = "''AIzaEnvKey''" and prompt = "''a cat''"
            and aspectRatio = "''1:1''" and j = 0 and err = ex_forbidden, THEN conjunct2, THEN conjunct2, THEN conjunct2, THEN conjunct2, THEN conjunct2, THEN conjunct2, THEN conjunct2, THEN conjunct2, THEN mp, OF h9]
    by simp

  show ?thesis
    by (intro conjI) (fact c1 c2 c3 c4 c5 c6 c7 c8 c9)+
qed

text \<open>
  C4 as stated fails for Analyze and ImageGenerate: a remote error with status 403 comes
  out of both as it is, not as the billing error.
\<close>

theorem analyze_403_counterexample:
  "indicates_403 ex_forbidden
   \<and> ex_forbidden \<noteq> billing_error
   \<and> snd (analyzeFrame (ex_env\<lparr>generateContent := \<lambda>ai i request. Inl ex_forbidden\<rparr>)
            (dataUrl ex_a) None) = Inl ex_forbidden
   \<and> snd (generateImageFromPrompt (ex_env\<lparr>generateContent := \<lambda>ai i request. Inl ex_forbidden\<rparr>)
            ''a cat'' ''1:1'' 1 None) = Inl ex_forbidden"
  by (simp add: indicates_403_def ex_forbidden_def billing_error_def new_Error_def
        analyzeFrame_def generateImageFromPrompt_def getClient_def resolve_key_def or_else_def
        ex_env_def Let_def Promise_all_def image_task_def)



text \<open>
  C6.  When the client could be created, the remote call answered with a text that is not
  empty, and \<^verbatim>\<open>JSON.parse\<close> throws on that text, \<^verbatim>\<open>analyzeFrame\<close> returns normally after its
  one request: the English prompt is the raw text and the Chinese description is the
  placeholder.
\<close>

theorem analyze_degrades_on_unparsable_text:
  assumes "getClient e customKey = Inr ai"
      and "generateContent e ai 0 (analyze_request base64Image) = Inr response"
      and "response_text response = Some t" and "t \<noteq> []"
      and "JSON_parse e t = None"
  shows "analyzeFrame e base64Image customKey =
           ([GenerateContent (analyze_request base64Image)],
            Inr \<lparr> chineseDescription = JStr parse_failed_placeholder, englishPrompt = JStr t \<rparr>)"
  using assms by (simp add: analyzeFrame_def parse_analysis_def Let_def)

theorem analyze_degrades_on_unparsable_text_witness:
  "getClient ex_env None = Inr ''AIzaEnvKey''
   \<and> generateContent ex_env ''AIzaEnvKey'' 0 (analyze_request (dataUrl ex_a))
       = Inr \<lparr> response_text = Some ''A cat on a sofa'', candidates = None \<rparr>
   \<and> JSON_parse ex_env ''A cat on a sofa'' = None
   \<and> snd (analyzeFrame ex_env (dataUrl ex_a) None) =
       Inr \<lparr> chineseDescription = JStr parse_failed_placeholder,
             englishPrompt = JStr ''A cat on a sofa'' \<rparr>"
  using analyze_degrades_on_unparsable_text
    [of ex_env None "''AIzaEnvKey''" "dataUrl ex_a"
        "\<lparr> response_text = Some ''A cat on a sofa'', candidates = None \<rparr>" "''A cat on a sofa''"]
  by (simp add: getClient_def resolve_key_def or_else_def ex_env_def analyze_request_def)

text \<open>
  C7.  After the submission the loop sleeps 5000 ms and asks for the status, again and
  again, until an operation is done.  If the operation handed back by the submission and
  by the first \<open>n - 1\<close> status requests is not done and the \<open>n\<close>-th status request hands
  back a done operation with a URI that can be fetched, the call makes exactly \<open>n\<close> status
  requests, each after one sleep, and returns the object URL; this for every \<open>n\<close>, so
  there is no bound on the attempts, and three status requests for the handle that is
  pending twice and then done.  If no operation is ever done the call never returns.
\<close>

theorem video_polls_until_done:
  "(getClient e customKey = Inr ai
      \<and> generateVideos e ai (video_request imageBase64 prompt aspectRatio endImage) = Inr (ops 0)
      \<and> (\<forall>i<n. getVideosOperation e ai i (ops i) = Inr (ops (Suc i)) \<and> \<not> is_done (ops i))
      \<and> is_done (ops n)
      \<and> downloadLink (ops n) = Some link \<and> link \<noteq> []
      \<and> fetch e (finalUrl e customKey link) = Inr videoResponse
      \<and> http_ok videoResponse \<and> resp_blob videoResponse = Inr b
    \<longrightarrow> generateVideoFromImage e imageBase64 prompt aspectRatio customKey endImage
          = Some (GenerateVideos (video_request imageBase64 prompt aspectRatio endImage)
                    # status_requests ops 0 n @ [Fetch (finalUrl e customKey link)],
                  Inr (createObjectURL e b))
        \<and> status_request_count
              (GenerateVideos (video_request imageBase64 prompt aspectRatio endImage)
                 # status_requests ops 0 n @ [Fetch (finalUrl e customKey link)]) = n)
   \<and> (getClient e customKey = Inr ai
      \<and> generateVideos e ai (video_request imageBase64 prompt aspectRatio endImage) = Inr (ops 0)
      \<and> (\<forall>i. getVideosOperation e ai i (ops i) = Inr (ops (Suc i)) \<and> \<not> is_done (ops i))
    \<longrightarrow> generateVideoFromImage e imageBase64 prompt aspectRatio customKey endImage = None)"
proof (intro conjI impI)
  let ?request = "video_request imageBase64 prompt aspectRatio endImage"
  assume h: "getClient e customKey = Inr ai
      \<and> generateVideos e ai ?request = Inr (ops 0)
      \<and> (\<forall>i<n. getVideosOperation e ai i (ops i) = Inr (ops (Suc i)) \<and> \<not> is_done (ops i))
      \<and> is_done (ops n)
      \<and> downloadLink (ops n) = Some link \<and> link \<noteq> []
      \<and> fetch e (finalUrl e customKey link) = Inr videoResponse
      \<and> http_ok videoResponse \<and> resp_blob videoResponse = Inr b"
  have "poll e ai 0 (ops 0) [GenerateVideos ?request]
          = Some ([GenerateVideos ?request] @ status_requests ops 0 n, Inr (ops (0 + n)))"
    using h by (intro poll_returns) simp_all
  with h show "generateVideoFromImage e imageBase64 prompt aspectRatio customKey endImage
          = Some (GenerateVideos ?request
                    # status_requests ops 0 n @ [Fetch (finalUrl e customKey link)],
                  Inr (createObjectURL e b))"
    by (simp add: generateVideoFromImage_def video_body_def download_def catch_403_def Let_def)
  show "status_request_count
          (GenerateVideos ?request # status_requests ops 0 n @ [Fetch (finalUrl e customKey link)])
        = n"
    by (simp add: status_request_count_Cons)
next
  let ?request = "video_request imageBase64 prompt aspectRatio endImage"
  assume h: "getClient e customKey = Inr ai
      \<and> generateVideos e ai ?request = Inr (ops 0)
      \<and> (\<forall>i. getVideosOperation e ai i (ops i) = Inr (ops (Suc i)) \<and> \<not> is_done (ops i))"
  have "poll e ai 0 (ops 0) [GenerateVideos ?request] = None"
    using h by (intro poll_diverges) simp_all
  with h show "generateVideoFromImage e imageBase64 prompt aspectRatio customKey endImage = None"
    by (simp add: generateVideoFromImage_def video_body_def Let_def)
qed

theorem video_polls_until_done_witness:
  "generateVideoFromImage ex_env (dataUrl ex_a) ''pan left'' ''16:9'' None None
     = Some (GenerateVideos (video_request (dataUrl ex_a) ''pan left'' ''16:9'' None)
               # [Sleep 5000, GetVideosOperation ex_submitted,
                  Sleep 5000, GetVideosOperation ex_pending,
                  Sleep 5000, GetVideosOperation ex_pending]
               @ [Fetch ''https://example.com/v.mp4?key=AIzaEnvKey''],
             Inr ''blob:clipforge/1'')
   \<and> status_request_count
        (GenerateVideos (video_request (dataUrl ex_a) ''pan left'' ''16:9'' None)
           # status_requests ex_ops 0 3 @ [Fetch ''https://example.com/v.mp4?key=AIzaEnvKey'']) = 3
   \<and> generateVideoFromImage (ex_env\<lparr>getVideosOperation := \<lambda>ai k operation. Inr ex_pending\<rparr>)
        (dataUrl ex_a) ''pan left'' ''16:9'' None None = None"
proof -
  have reqs: "status_requests ex_ops 0 3
                = [Sleep 5000, GetVideosOperation ex_submitted,
                   Sleep 5000, GetVideosOperation ex_pending,
                   Sleep 5000, GetVideosOperation ex_pending]"
    by (simp add: numeral_3_eq_3 ex_ops_def)
  have hyp1: "getClient ex_env None = Inr ''AIzaEnvKey''
      \<and> generateVideos ex_env ''AIzaEnvKey'' (video_request (dataUrl ex_a) ''pan left'' ''16:9'' None)
          = Inr (ex_ops 0)
      \<and> (\<forall>i<3. getVideosOperation ex_env ''AIzaEnvKey'' i (ex_ops i) = Inr (ex_ops (Suc i))
                 \<and> \<not> is_done (ex_ops i))
      \<and> is_done (ex_ops 3)
      \<and> downloadLink (ex_ops 3) = Some ''https://example.com/v.mp4''
      \<and> ''https://example.com/v.mp4'' \<noteq> []
      \<and> fetch ex_env (finalUrl ex_env None ''https://example.com/v.mp4'')
          = Inr \<lparr> resp_status = 200, resp_statusText = ''OK'', resp_blob = Inr ''video-bytes'' \<rparr>
      \<and> http_ok \<lparr> resp_status = 200, resp_statusText = ''OK'', resp_blob = Inr ''video-bytes'' \<rparr>
      \<and> resp_blob \<lparr> resp_status = 200, resp_statusText = ''OK'', resp_blob = Inr ''video-bytes'' \<rparr>
          = Inr ''video-bytes''"
    by (simp add: getClient_def resolve_key_def or_else_def finalUrl_def template_of_def ex_env_def ex_ops_def is_done_def ex_submitted_def ex_pending_def
          ex_finished_def downloadLink_def at_index_def http_ok_def)
  let ?never = "ex_env\<lparr>getVideosOperation := \<lambda>ai k operation. Inr ex_pending\<rparr>"
  let ?waiting = "\<lambda>i::nat. if i = 0 then ex_submitted else ex_pending"
  have hyp2: "getClient ?never None = Inr ''AIzaEnvKey''
      \<and> generateVideos ?never ''AIzaEnvKey'' (video_request (dataUrl ex_a) ''pan left'' ''16:9'' None)
          = Inr (?waiting 0)
      \<and> (\<forall>i. getVideosOperation ?never ''AIzaEnvKey'' i (?waiting i) = Inr (?waiting (Suc i))
               \<and> \<not> is_done (?waiting i))"
    by (simp add: getClient_def resolve_key_def or_else_def ex_env_def is_done_def
          ex_submitted_def ex_pending_def)
  from video_polls_until_done
         [of ex_env None "''AIzaEnvKey''" "dataUrl ex_a" "''pan left''" "''16:9''" None ex_ops 3
             "''https://example.com/v.mp4''"
             "\<lparr> resp_status = 200, resp_statusText = ''OK'', resp_blob = Inr ''video-bytes'' \<rparr>"
             "''video-bytes''"]
       hyp1
  have part1: "generateVideoFromImage ex_env (dataUrl ex_a) ''pan left'' ''16:9'' None None
     = Some (GenerateVideos (video_request (dataUrl ex_a) ''pan left'' ''16:9'' None)
               # status_requests ex_ops 0 3 @ [Fetch (finalUrl ex_env None ''https://example.com/v.mp4'')],
             Inr (createObjectURL ex_env ''video-bytes''))
     \<and> status_request_count
        (GenerateVideos (video_request (dataUrl ex_a) ''pan left'' ''16:9'' None)
           # status_requests ex_ops 0 3 @ [Fetch (finalUrl ex_env None ''https://example.com/v.mp4'')]) = 3"
    by blast
  from video_polls_until_done
         [of ?never None "''AIzaEnvKey''" "dataUrl ex_a" "''pan left''" "''16:9''" None ?waiting]
       hyp2
  have part2: "generateVideoFromImage ?never (dataUrl ex_a) ''pan left'' ''16:9'' None None = None"
    by blast
  have url: "createObjectURL ex_env ''video-bytes'' = ''blob:clipforge/1''"
    by (simp add: ex_env_def)
  from part1 part2 show ?thesis
    unfolding reqs ex_env_final_url url by simp
qed

text \<open>
  C8.  The bucketing of the aspect ratio is a total function of the argument, applying it
  twice is applying it once, its value is always one of the two canonical ratios, and on
  the five ratios the interface offers it is: 9:16 and 3:4 to 9:16, the others to 16:9.
\<close>

theorem aspect_ratio_bucketing:
  "targetAspectRatio (targetAspectRatio r) = targetAspectRatio r
   \<and> targetAspectRatio r \<in> {''16:9'', ''9:16''}
   \<and> targetAspectRatio ''16:9'' = ''16:9''
   \<and> targetAspectRatio ''9:16'' = ''9:16''
   \<and> targetAspectRatio ''4:3'' = ''16:9''
   \<and> targetAspectRatio ''3:4'' = ''9:16''
   \<and> targetAspectRatio ''1:1'' = ''16:9''"
  by (simp add: targetAspectRatio_def)

text \<open>
  C9.  \<^verbatim>\<open>handleSaveApiKey\<close> on the typed candidate: when the candidate is empty after
  trimming or does not start with \<^verbatim>\<open>AIza\<close>, an error message is set, nothing is written
  to the storage and the dialogue stays open; otherwise the trimmed candidate is written
  under the storage key, becomes the key held in memory, and no error is shown.
\<close>

theorem save_key_validates:
  "(trim (apiKey a) = [] \<or> \<not> startsWith (trim (apiKey a)) ''AIza''
      \<longrightarrow> keyError (handleSaveApiKey a) \<noteq> None
          \<and> localStorage (handleSaveApiKey a) = localStorage a
          \<and> showKeyInput (handleSaveApiKey a) = showKeyInput a)
   \<and> (trim (apiKey a) \<noteq> [] \<and> startsWith (trim (apiKey a)) ''AIza''
      \<longrightarrow> keyError (handleSaveApiKey a) = None
          \<and> localStorage (handleSaveApiKey a) = (localStorage a)(storage_key \<mapsto> trim (apiKey a))
          \<and> apiKey (handleSaveApiKey a) = trim (apiKey a))"
  by (simp add: handleSaveApiKey_def Let_def)

theorem save_key_validates_witness:
  "keyError (handleSaveApiKey (ex_key_app ''not-a-key'')) = Some key_format_message
   \<and> localStorage (handleSaveApiKey (ex_key_app ''not-a-key'')) storage_key = Some ''AIzaOldKey''
   \<and> keyError (handleSaveApiKey (ex_key_app '' AIzaSyNewKey  '')) = None
   \<and> localStorage (handleSaveApiKey (ex_key_app '' AIzaSyNewKey  '')) storage_key
       = Some ''AIzaSyNewKey''
   \<and> apiKey (handleSaveApiKey (ex_key_app '' AIzaSyNewKey  '')) = ''AIzaSyNewKey''"
  using save_key_validates [of "ex_key_app ''not-a-key''"]
    save_key_validates [of "ex_key_app '' AIzaSyNewKey  ''"]
  by (simp add: ex_key_app_def initial_app_def trim_not_a_key trim_good_key startsWith_def
        handleSaveApiKey_def Let_def)

text \<open>
  C10.  With an empty prompt the request handed to \<^verbatim>\<open>generateVideos\<close> carries the default
  prompt, so the call is the call with the default prompt in every respect: the same
  requests and the same outcome, and whenever it returns after a client was created its
  first call is the submission with the default prompt.  Any other prompt is submitted as
  it is.
\<close>

theorem empty_video_prompt_is_defaulted:
  "vr_prompt (video_request imageBase64 [] aspectRatio endImage) = default_video_prompt
   \<and> (prompt \<noteq> [] \<longrightarrow> vr_prompt (video_request imageBase64 prompt aspectRatio endImage) = prompt)
   \<and> generateVideoFromImage e imageBase64 [] aspectRatio customKey endImage
       = generateVideoFromImage e imageBase64 default_video_prompt aspectRatio customKey endImage
   \<and> (getClient e customKey = Inr ai
        \<and> generateVideoFromImage e imageBase64 [] aspectRatio customKey endImage = Some (calls, r)
      \<longrightarrow> (\<exists>request rest. calls = GenerateVideos request # rest
                \<and> vr_prompt request = default_video_prompt))"
proof (intro conjI impI)
  show "vr_prompt (video_request imageBase64 [] aspectRatio endImage) = default_video_prompt"
    by (simp add: video_request_def)
  show "vr_prompt (video_request imageBase64 prompt aspectRatio endImage) = prompt"
    if "prompt \<noteq> []"
    using that by (simp add: video_request_def)
  have same: "video_request imageBase64 [] aspectRatio endImage
         = video_request imageBase64 default_video_prompt aspectRatio endImage"
    by (simp add: video_request_def default_video_prompt_def)
  show "generateVideoFromImage e imageBase64 [] aspectRatio customKey endImage
       = generateVideoFromImage e imageBase64 default_video_prompt aspectRatio customKey endImage"
    unfolding generateVideoFromImage_def video_body_def same ..
  assume h: "getClient e customKey = Inr ai
        \<and> generateVideoFromImage e imageBase64 [] aspectRatio customKey endImage = Some (calls, r)"
  then obtain r' where "video_body e imageBase64 [] aspectRatio customKey endImage = Some (calls, r')"
    by (auto simp: generateVideoFromImage_def split: option.splits)
  with h have "prefix [GenerateVideos (video_request imageBase64 [] aspectRatio endImage)] calls"
    by (auto intro: video_body_first_call)
  then obtain rest where
    "calls = GenerateVideos (video_request imageBase64 [] aspectRatio endImage) # rest"
    by (auto simp: prefix_def)
  then show "\<exists>request rest. calls = GenerateVideos request # rest
                \<and> vr_prompt request = default_video_prompt"
    by (auto simp: video_request_def)
qed

theorem empty_video_prompt_is_defaulted_witness:
  "generateVideoFromImage (ex_env\<lparr>generateVideos := \<lambda>ai request. Inl ex_overloaded\<rparr>)
      (dataUrl ex_a) [] ''16:9'' None None
     = Some ([GenerateVideos (video_request (dataUrl ex_a) [] ''16:9'' None)], Inl ex_overloaded)
   \<and> vr_prompt (video_request (dataUrl ex_a) [] ''16:9'' None)
       = ''Animate this scene naturally, cinematic lighting, 4k''
   \<and> vr_prompt (video_request (dataUrl ex_a) ''pan left'' ''16:9'' None) = ''pan left''
   \<and> (\<exists>request rest.
         [GenerateVideos (video_request (dataUrl ex_a) [] ''16:9'' None)] = GenerateVideos request # rest
         \<and> vr_prompt request = default_video_prompt)"
proof -
  let ?e = "ex_env\<lparr>generateVideos := \<lambda>ai request. Inl ex_overloaded\<rparr>"
  have client: "getClient ?e None = Inr ''AIzaEnvKey''"
    by (simp add: getClient_def resolve_key_def or_else_def ex_env_def)
  have no403: "\<not> indicates_403 ex_overloaded"
    by (simp add: indicates_403_def ex_overloaded_def)
  have run: "generateVideoFromImage ?e (dataUrl ex_a) [] ''16:9'' None None
     = Some ([GenerateVideos (video_request (dataUrl ex_a) [] ''16:9'' None)], Inl ex_overloaded)"
    by (simp add: generateVideoFromImage_def video_body_def client catch_403_def no403 Let_def)
  from empty_video_prompt_is_defaulted
         [of "dataUrl ex_a" "''16:9''" None "''pan left''" ?e None "''AIzaEnvKey''"
             "[GenerateVideos (video_request (dataUrl ex_a) [] ''16:9'' None)]"
             "Inl ex_overloaded"]
       client run
  show ?thesis
    by (simp add: default_video_prompt_def)
qed

end
